theory Spec2Isabelle
  imports Main "HOL-Library.Char_ord" "HOL-Library.List_Lexorder"
begin

section \<open>simpleab: a shallow embedding of \<^verbatim>\<open>simpleab.py\<close>\<close>

text \<open>
  The module is Python 2 (its doctest prints \<^verbatim>\<open>sides: ['A', 'B']\<close> for
  \<^verbatim>\<open>dict.keys()\<close>, a list). The model keeps the three classes \<^verbatim>\<open>BaseAB\<close>,
  \<^verbatim>\<open>SimpleAB\<close> and \<^verbatim>\<open>ConfigurableAB\<close>, the storage interface of
  \<^verbatim>\<open>DummyStorage\<close>, and the methods \<^verbatim>\<open>__init__\<close>, \<^verbatim>\<open>current_side\<close>,
  \<^verbatim>\<open>allowed_sides\<close>, \<^verbatim>\<open>select_side\<close>, \<^verbatim>\<open>apply_side\<close>, \<^verbatim>\<open>test\<close> and
  \<^verbatim>\<open>record\<close>.

  \<^item> A Python value that is a string or \<^verbatim>\<open>None\<close> is a \<open>string option\<close>.
  \<^item> An exception is a value of type \<open>error\<close>; a call returns \<open>error + 'r\<close>.
  \<^item> The storage collaborator is an object of unknown class: a record of four operations
    on a store of type \<open>'st\<close>, each of which may raise and may change the store.
  \<^item> Every method returns, besides its outcome, the instance and the store as the call leaves
    them (also when it raises), and the list of calls it made to its collaborators and
    extension points, in order.
  \<^item> \<^verbatim>\<open>random.choice\<close> reads a number \<open>rnd\<close> supplied by the environment.
\<close>

subsection \<open>Exceptions\<close>

text \<open>
  The module has one exception class, \<^verbatim>\<open>ABTestError\<close>, raised at four places with four
  messages; the message is kept as data. The other constructors are the built-in exceptions
  the code can raise, and \<open>CollaboratorError\<close> is whatever a storage operation, a selector or
  a side method raises.
\<close>

datatype abmsg =
    TestShouldBeNamed
  | SidesNotGiven "string option"
  | UnknownSide "string option" "string option"
  | SideNotImplemented string "string option"

datatype error =
    ABTestError abmsg
  | NotImplementedError
  | AttributeError
  | TypeError
  | IndexError
  | KeyError
  | CollaboratorError nat

subsection \<open>Truth values of Python objects\<close>

text \<open>\<^verbatim>\<open>not x\<close> holds for \<^verbatim>\<open>None\<close>, the empty string and the empty list.\<close>

fun truthy :: "string option \<Rightarrow> bool" where
  "truthy None = False"
| "truthy (Some s) = (s \<noteq> [])"

fun truthy_list :: "'x list option \<Rightarrow> bool" where
  "truthy_list None = False"
| "truthy_list (Some xs) = (xs \<noteq> [])"

subsection \<open>The storage collaborator\<close>

record ('i, 'st) storage =
  create :: "string option \<Rightarrow> string list option \<Rightarrow> 'st \<Rightarrow> (error + unit) \<times> 'st"
  set_side :: "'i option \<Rightarrow> string option \<Rightarrow> string \<Rightarrow> 'st \<Rightarrow> (error + unit) \<times> 'st"
  get_side :: "'i option \<Rightarrow> string option \<Rightarrow> 'st \<Rightarrow> (error + string option) \<times> 'st"
  record_event :: "'i option \<Rightarrow> string option \<Rightarrow> string option \<Rightarrow> 'st \<Rightarrow> (error + unit) \<times> 'st"

text \<open>\<^verbatim>\<open>DummyStorage\<close>: every method is \<^verbatim>\<open>pass\<close>, so it returns \<^verbatim>\<open>None\<close>.\<close>

definition DummyStorage :: "('i, 'st) storage" where
  "DummyStorage =
     \<lparr>create = (\<lambda>nm sides st. (Inr (), st)),
      set_side = (\<lambda>ident nm side st. (Inr (), st)),
      get_side = (\<lambda>ident nm st. (Inr None, st)),
      record_event = (\<lambda>ident nm side st. (Inr (), st))\<rparr>"

text \<open>
  A storage that does what the docstrings of \<^verbatim>\<open>DummyStorage\<close> describe
  (\<^verbatim>\<open>set_side\<close>: ``Associates AB side with user for current test. So it can be accessed
  later''; \<^verbatim>\<open>get_side\<close>: ``Returns side previously associated with user or None''): the
  store is an association list from (identity, name) to the side.
\<close>

type_synonym 'i side_table = "(('i option \<times> string option) \<times> string) list"

definition ListStorage :: "('i, 'i side_table) storage" where
  "ListStorage =
     \<lparr>create = (\<lambda>nm sides st. (Inr (), st)),
      set_side = (\<lambda>ident nm side st. (Inr (), ((ident, nm), side) # st)),
      get_side = (\<lambda>ident nm st. (Inr (map_of st (ident, nm)), st)),
      record_event = (\<lambda>ident nm side st. (Inr (), st))\<rparr>"

subsection \<open>Instances\<close>

text \<open>
  An attribute of a \<^verbatim>\<open>SimpleAB\<close> subclass is either callable (a method, applied to the
  arguments of \<^verbatim>\<open>test\<close>) or not (any other object).
\<close>

datatype ('a, 'v) attr = Plain | Method "'a \<Rightarrow> error + 'v"

text \<open>An instance attribute that \<^verbatim>\<open>__init__\<close> has not assigned yet does not exist.\<close>

datatype 'x slot = Unset | Assigned 'x

text \<open>
  What the three classes add to the common fields: nothing; the attributes a subclass of
  \<^verbatim>\<open>SimpleAB\<close> defines (name and object, the first binding of a name being the visible
  one); \<^verbatim>\<open>self.sides\<close> and \<^verbatim>\<open>self.selector\<close>. A dictionary is the list of its
  items in iteration order.
\<close>

datatype ('a, 'v) kind =
    BaseKind
  | SimpleKind "(string \<times> ('a, 'v) attr) list"
  | ConfigurableKind "(string \<times> 'v) list option slot"
      "('a \<Rightarrow> nat \<Rightarrow> error + string option) option slot"

record ('i, 'a, 'v, 'st) ab =
  identity :: "'i option"
  storage :: "('i, 'st) storage option"
  priv_side :: "string option"
  name :: "string option"
  kind :: "('a, 'v) kind"

text \<open>The calls an instance makes to its storage and to its extension points.\<close>

datatype 'i event =
    CreateCall "string option" "string list option"
  | GetSideCall "'i option" "string option"
  | SetSideCall "'i option" "string option" string
  | RecordCall "'i option" "string option" "string option"
  | SelectSideCall
  | ApplySideCall string

text \<open>The four components of what a method call leaves behind.\<close>

abbreviation outcome :: "'r \<times> 's \<times> 't \<times> 'e \<Rightarrow> 'r" where
  "outcome r \<equiv> fst r"

abbreviation inst_after :: "'r \<times> 's \<times> 't \<times> 'e \<Rightarrow> 's" where
  "inst_after r \<equiv> fst (snd r)"

abbreviation store_after :: "'r \<times> 's \<times> 't \<times> 'e \<Rightarrow> 't" where
  "store_after r \<equiv> fst (snd (snd r))"

abbreviation calls :: "'r \<times> 's \<times> 't \<times> 'e \<Rightarrow> 'e" where
  "calls r \<equiv> snd (snd (snd r))"

subsection \<open>Properties and extension points\<close>

text \<open>\<^verbatim>\<open>current_side\<close> returns \<^verbatim>\<open>self._side\<close>.\<close>

definition current_side :: "('i, 'a, 'v, 'st) ab \<Rightarrow> string option" where
  "current_side self = priv_side self"

text \<open>
  \<^verbatim>\<open>dir(self)\<close> is the sorted list of the attribute names, each once. The names that
  \<^verbatim>\<open>BaseAB\<close> and \<^verbatim>\<open>object\<close> contribute are all longer than one character, so only
  the subclass's own attributes matter to \<^verbatim>\<open>allowed_sides\<close>.
\<close>

definition dir_names :: "(string \<times> 'b) list \<Rightarrow> string list" where
  "dir_names attrs = sort (remdups (map fst attrs))"

text \<open>
  \<^verbatim>\<open>allowed_sides\<close>: the class attribute \<^verbatim>\<open>None\<close> in \<^verbatim>\<open>BaseAB\<close>, a property in
  the two subclasses. The property of \<^verbatim>\<open>ConfigurableAB\<close> reads \<^verbatim>\<open>self.sides\<close>.
\<close>

definition allowed_sides :: "('i, 'a, 'v, 'st) ab \<Rightarrow> error + string list option" where
  "allowed_sides self =
     (case kind self of
        BaseKind \<Rightarrow> Inr None
      | SimpleKind attrs \<Rightarrow>
          Inr (Some (filter (\<lambda>x. length x = 1 \<and> ''A'' \<le> x \<and> x \<le> ''Z'') (dir_names attrs)))
      | ConfigurableKind sides sel \<Rightarrow>
          (case sides of
             Unset \<Rightarrow> Inl AttributeError
           | Assigned None \<Rightarrow> Inr (Some [])
           | Assigned (Some items) \<Rightarrow>
               if items \<noteq> [] then Inr (Some (map fst items)) else Inr (Some [])))"

text \<open>\<^verbatim>\<open>random.choice(seq)\<close> is \<^verbatim>\<open>seq[int(random() * len(seq))]\<close>.\<close>

definition choice :: "error + string list option \<Rightarrow> nat \<Rightarrow> error + string option" where
  "choice seq rnd =
     (case seq of
        Inl e \<Rightarrow> Inl e
      | Inr None \<Rightarrow> Inl TypeError
      | Inr (Some xs) \<Rightarrow> if xs = [] then Inl IndexError else Inr (Some (xs ! (rnd mod length xs))))"

definition select_side :: "('i, 'a, 'v, 'st) ab \<Rightarrow> 'a \<Rightarrow> nat \<Rightarrow> error + string option" where
  "select_side self args rnd =
     (case kind self of
        BaseKind \<Rightarrow> Inl NotImplementedError
      | SimpleKind attrs \<Rightarrow> choice (allowed_sides self) rnd
      | ConfigurableKind sides sel \<Rightarrow>
          (case sel of
             Unset \<Rightarrow> Inl AttributeError
           | Assigned None \<Rightarrow> choice (allowed_sides self) rnd
           | Assigned (Some f) \<Rightarrow> f args rnd))"

definition apply_side :: "('i, 'a, 'v, 'st) ab \<Rightarrow> string \<Rightarrow> 'a \<Rightarrow> error + 'v" where
  "apply_side self side args =
     (case kind self of
        BaseKind \<Rightarrow> Inl NotImplementedError
      | SimpleKind attrs \<Rightarrow>
          (case map_of attrs side of
             Some (Method m) \<Rightarrow> m args
           | Some Plain \<Rightarrow> Inl (ABTestError (SideNotImplemented side (name self)))
           | None \<Rightarrow> Inl (ABTestError (SideNotImplemented side (name self))))
      | ConfigurableKind sides sel \<Rightarrow>
          (case sides of
             Unset \<Rightarrow> Inl AttributeError
           | Assigned None \<Rightarrow> Inl TypeError
           | Assigned (Some items) \<Rightarrow>
               (case map_of items side of None \<Rightarrow> Inl KeyError | Some v \<Rightarrow> Inr v)))"

subsection \<open>\<^verbatim>\<open>BaseAB.test\<close> and \<^verbatim>\<open>BaseAB.record\<close>\<close>

text \<open>
  Lines 123 to 130 of \<^verbatim>\<open>test\<close>, ``select AB side, use forced value if given'':
  \<^verbatim>\<open>kwargs.pop('force_side', None)\<close>, then the storage if the side is falsy and a storage
  is attached, then \<^verbatim>\<open>select_side\<close> if the side is still falsy.
\<close>

definition resolve_side ::
  "('i, 'a, 'v, 'st) ab \<Rightarrow> 'a \<Rightarrow> string option \<Rightarrow> nat \<Rightarrow> 'st
     \<Rightarrow> (error + string option) \<times> 'st \<times> 'i event list" where
  "resolve_side self args force_side rnd st =
     (let loaded =
        (case storage self of
           Some ops \<Rightarrow>
             if \<not> truthy force_side
             then (case get_side ops (identity self) (name self) st of
                     (r, st1) \<Rightarrow> (r, st1, [GetSideCall (identity self) (name self)]))
             else (Inr force_side, st, [])
         | None \<Rightarrow> (Inr force_side, st, []))
      in case loaded of
           (Inl e, st1, tr) \<Rightarrow> (Inl e, st1, tr)
         | (Inr side, st1, tr) \<Rightarrow>
             if \<not> truthy side then (select_side self args rnd, st1, tr @ [SelectSideCall])
             else (Inr side, st1, tr))"

definition test ::
  "('i, 'a, 'v, 'st) ab \<Rightarrow> 'a \<Rightarrow> string option \<Rightarrow> nat \<Rightarrow> 'st
     \<Rightarrow> (error + 'v) \<times> ('i, 'a, 'v, 'st) ab \<times> 'st \<times> 'i event list" where
  "test self args force_side rnd st =
     (if \<not> truthy (name self) then (Inl (ABTestError TestShouldBeNamed), self, st, [])
      else
        (case allowed_sides self of
           Inl e \<Rightarrow> (Inl e, self, st, [])
         | Inr als \<Rightarrow>
             if \<not> truthy_list als
             then (Inl (ABTestError (SidesNotGiven (name self))), self, st, [])
             else
               (case resolve_side self args force_side rnd st of
                  (Inl e, st1, tr) \<Rightarrow> (Inl e, self, st1, tr)
                | (Inr None, st1, tr) \<Rightarrow>
                    (Inl (ABTestError (UnknownSide None (name self))), self, st1, tr)
                | (Inr (Some side), st1, tr) \<Rightarrow>
                    if side = []
                    then (Inl (ABTestError (UnknownSide (Some side) (name self))), self, st1, tr)
                    else
                      (case allowed_sides self of
                         Inl e \<Rightarrow> (Inl e, self, st1, tr)
                       | Inr None \<Rightarrow> (Inl TypeError, self, st1, tr)
                       | Inr (Some xs) \<Rightarrow>
                           if side \<notin> set xs
                           then (Inl (ABTestError (UnknownSide (Some side) (name self))),
                                 self, st1, tr)
                           else
                             (let self' = self\<lparr>priv_side := Some side\<rparr> in
                                (case storage self' of
                                   None \<Rightarrow>
                                     (apply_side self' side args, self', st1,
                                      tr @ [ApplySideCall side])
                                 | Some ops \<Rightarrow>
                                     (case set_side ops (identity self') (name self') side st1 of
                                        (Inl e, st2) \<Rightarrow>
                                          (Inl e, self', st2,
                                           tr @ [SetSideCall (identity self') (name self') side])
                                      | (Inr u, st2) \<Rightarrow>
                                          (apply_side self' side args, self', st2,
                                           tr @ [SetSideCall (identity self') (name self') side,
                                                 ApplySideCall side]))))))))"

definition record_ab ::
  "('i, 'a, 'v, 'st) ab \<Rightarrow> string option \<Rightarrow> 'st
     \<Rightarrow> (error + unit) \<times> ('i, 'a, 'v, 'st) ab \<times> 'st \<times> 'i event list" where
  "record_ab self side st =
     (case storage self of
        None \<Rightarrow> (Inr (), self, st, [])
      | Some ops \<Rightarrow>
          (case record_event ops (identity self) (name self) side st of
             (r, st1) \<Rightarrow> (r, self, st1, [RecordCall (identity self) (name self) side])))"

subsection \<open>Construction\<close>

text \<open>
  The object \<^verbatim>\<open>__init__\<close> receives has the class attributes only: \<^verbatim>\<open>name\<close> as the
  class defines it, and no instance attribute. The fields \<open>identity\<close>, \<open>storage\<close> and
  \<open>priv_side\<close> are assigned by \<^verbatim>\<open>BaseAB.__init__\<close> before anything reads them.
\<close>

definition new_object :: "string option \<Rightarrow> ('a, 'v) kind \<Rightarrow> ('i, 'a, 'v, 'st) ab" where
  "new_object nm k = \<lparr>identity = None, storage = None, priv_side = None, name = nm, kind = k\<rparr>"

definition BaseAB_init ::
  "('i, 'a, 'v, 'st) ab \<Rightarrow> 'i option \<Rightarrow> ('i, 'st) storage option \<Rightarrow> 'st
     \<Rightarrow> (error + unit) \<times> ('i, 'a, 'v, 'st) ab \<times> 'st \<times> 'i event list" where
  "BaseAB_init self ident stor st =
     (let self' = self\<lparr>identity := ident, storage := stor, priv_side := None\<rparr> in
      case storage self' of
        None \<Rightarrow> (Inr (), self', st, [])
      | Some ops \<Rightarrow>
          (case allowed_sides self' of
             Inl e \<Rightarrow> (Inl e, self', st, [])
           | Inr als \<Rightarrow>
               (case create ops (name self') als st of
                  (r, st1) \<Rightarrow> (r, self', st1, [CreateCall (name self') als]))))"

text \<open>
  \<^verbatim>\<open>ConfigurableAB.__init__\<close> calls \<^verbatim>\<open>BaseAB.__init__\<close> first and assigns
  \<^verbatim>\<open>name\<close>, \<^verbatim>\<open>sides\<close> and \<^verbatim>\<open>selector\<close> after it has returned.
\<close>

definition ConfigurableAB_init ::
  "('i, 'a, 'v, 'st) ab \<Rightarrow> 'i option \<Rightarrow> ('i, 'st) storage option \<Rightarrow> string option
     \<Rightarrow> (string \<times> 'v) list option \<Rightarrow> ('a \<Rightarrow> nat \<Rightarrow> error + string option) option \<Rightarrow> 'st
     \<Rightarrow> (error + unit) \<times> ('i, 'a, 'v, 'st) ab \<times> 'st \<times> 'i event list" where
  "ConfigurableAB_init self ident stor nm sides sel st =
     (case BaseAB_init self ident stor st of
        (Inl e, self1, st1, tr) \<Rightarrow> (Inl e, self1, st1, tr)
      | (Inr u, self1, st1, tr) \<Rightarrow>
          (Inr (),
           self1\<lparr>name := nm, kind := ConfigurableKind (Assigned sides) (Assigned sel)\<rparr>,
           st1, tr))"

text \<open>\<^verbatim>\<open>ConfigurableAB(identity, storage, name, sides, selector)\<close>\<close>

definition ConfigurableAB ::
  "'i option \<Rightarrow> ('i, 'st) storage option \<Rightarrow> string option
     \<Rightarrow> (string \<times> 'v) list option \<Rightarrow> ('a \<Rightarrow> nat \<Rightarrow> error + string option) option \<Rightarrow> 'st
     \<Rightarrow> (error + unit) \<times> ('i, 'a, 'v, 'st) ab \<times> 'st \<times> 'i event list" where
  "ConfigurableAB ident stor nm sides sel st =
     ConfigurableAB_init (new_object None (ConfigurableKind Unset Unset)) ident stor nm sides sel st"

text \<open>
  An instance of a subclass of \<^verbatim>\<open>SimpleAB\<close> whose body defines \<^verbatim>\<open>name = nm\<close> and
  the attributes \<open>attrs\<close>; \<^verbatim>\<open>SimpleAB\<close> inherits \<^verbatim>\<open>BaseAB.__init__\<close>.
\<close>

definition SimpleAB ::
  "string option \<Rightarrow> (string \<times> ('a, 'v) attr) list \<Rightarrow> 'i option \<Rightarrow> ('i, 'st) storage option \<Rightarrow> 'st
     \<Rightarrow> (error + unit) \<times> ('i, 'a, 'v, 'st) ab \<times> 'st \<times> 'i event list" where
  "SimpleAB nm attrs ident stor st = BaseAB_init (new_object nm (SimpleKind attrs)) ident stor st"

subsection \<open>Calling \<^verbatim>\<open>test\<close> repeatedly\<close>

text \<open>
  The side a call of \<^verbatim>\<open>test\<close> resolves and finds valid, that is the side with which the
  call reaches the assignment \<^verbatim>\<open>self._side = side\<close> of line 135; \<open>None\<close> when the call
  raises before that line.
\<close>

definition validated_side ::
  "('i, 'a, 'v, 'st) ab \<Rightarrow> 'a \<Rightarrow> string option \<Rightarrow> nat \<Rightarrow> 'st \<Rightarrow> string option" where
  "validated_side self args force_side rnd st =
     (if \<not> truthy (name self) then None
      else case allowed_sides self of
        Inr (Some xs) \<Rightarrow>
          if xs = [] then None
          else (case fst (resolve_side self args force_side rnd st) of
                  Inr (Some s) \<Rightarrow> if s \<noteq> [] \<and> s \<in> set xs then Some s else None
                | Inr None \<Rightarrow> None
                | Inl e \<Rightarrow> None)
      | Inr None \<Rightarrow> None
      | Inl e \<Rightarrow> None)"

text \<open>
  A caller that calls \<^verbatim>\<open>test\<close> on one instance several times, catching what it raises:
  the instance and the store after the calls, and the sides the calls validated, in order.
\<close>

fun run_tests ::
  "('i, 'a, 'v, 'st) ab \<Rightarrow> 'st \<Rightarrow> ('a \<times> string option \<times> nat) list
     \<Rightarrow> ('i, 'a, 'v, 'st) ab \<times> 'st" where
  "run_tests self st [] = (self, st)"
| "run_tests self st ((args, force_side, rnd) # cs) =
     run_tests (inst_after (test self args force_side rnd st))
       (store_after (test self args force_side rnd st)) cs"

fun validated_sides ::
  "('i, 'a, 'v, 'st) ab \<Rightarrow> 'st \<Rightarrow> ('a \<times> string option \<times> nat) list \<Rightarrow> string list" where
  "validated_sides self st [] = []"
| "validated_sides self st ((args, force_side, rnd) # cs) =
     (case validated_side self args force_side rnd st of None \<Rightarrow> [] | Some s \<Rightarrow> [s])
     @ validated_sides (inst_after (test self args force_side rnd st))
         (store_after (test self args force_side rnd st)) cs"

subsection \<open>Example instances\<close>

text \<open>
  The class of the docstring of \<^verbatim>\<open>SimpleAB\<close>:
  \<^verbatim>\<open>class MyTest(SimpleAB): name = 'MyTest'; def A(self): return 'Side A'; ...\<close>,
  instantiated without a storage, with a \<^verbatim>\<open>DummyStorage\<close>, and with a storage that keeps
  the sides.
\<close>

definition MyTest :: "(string \<times> (unit, string) attr) list" where
  "MyTest =
     [(''A'', Method (\<lambda>args. Inr ''Side A'')),
      (''B'', Method (\<lambda>args. Inr ''Side B'')),
      (''C'', Method (\<lambda>args. Inr ''Side C''))]"

definition mytest :: "(unit, unit, string, unit) ab" where
  "mytest = inst_after (SimpleAB (Some ''MyTest'') MyTest None None ())"

definition mytest_dummy :: "(unit, unit, string, unit) ab" where
  "mytest_dummy = inst_after (SimpleAB (Some ''MyTest'') MyTest None (Some DummyStorage) ())"

definition mytest_stored :: "(unit, unit, string, unit side_table) ab" where
  "mytest_stored = inst_after (SimpleAB (Some ''MyTest'') MyTest None (Some ListStorage) [])"

text \<open>
  \<^verbatim>\<open>class HalfTest(SimpleAB): name = 'HalfTest'; def A(self): return 'Side A'; B = 'Side B'\<close>:
  the attribute \<^verbatim>\<open>B\<close> is a string, not a method.
\<close>

definition HalfTest :: "(string \<times> (unit, string) attr) list" where
  "HalfTest = [(''A'', Method (\<lambda>args. Inr ''Side A'')), (''B'', Plain)]"

definition halftest :: "(unit, unit, string, unit) ab" where
  "halftest = inst_after (SimpleAB (Some ''HalfTest'') HalfTest None None ())"

text \<open>
  The instance of the docstring of \<^verbatim>\<open>ConfigurableAB\<close>:
  \<^verbatim>\<open>ConfigurableAB(name='MyTest', sides={'A': 'Side A', 'B': 'Side B'},
  selector=lambda: r.choice(['A','B']))\<close>.
\<close>

definition myab :: "(unit, unit, string, unit) ab" where
  "myab = inst_after (ConfigurableAB None None (Some ''MyTest'')
            (Some [(''A'', ''Side A''), (''B'', ''Side B'')])
            (Some (\<lambda>args rnd. choice (Inr (Some [''A'', ''B''])) rnd)) ())"

text \<open>\<^verbatim>\<open>ConfigurableAB(sides={'A': 'Side A'})\<close> and \<^verbatim>\<open>ConfigurableAB(name='MyTest')\<close>.\<close>

definition unnamed_ab :: "(unit, unit, string, unit) ab" where
  "unnamed_ab = inst_after (ConfigurableAB None None None (Some [(''A'', ''Side A'')]) None ())"

definition no_sides_ab :: "(unit, unit, string, unit) ab" where
  "no_sides_ab = inst_after (ConfigurableAB None None (Some ''MyTest'') None None ())"

text \<open>
  Instances whose mapping has the empty string as a key:
  \<^verbatim>\<open>ConfigurableAB(name='MyTest', sides={'': 'Side empty'})\<close>, and
  \<^verbatim>\<open>ConfigurableAB(name='MyTest', sides={'': 'Side empty', 'A': 'Side A'},
  selector=lambda: 'A')\<close> to which a storage is attached after construction
  (\<^verbatim>\<open>ab.storage = ...\<close>).
\<close>

definition empty_key_ab :: "(unit, unit, string, unit) ab" where
  "empty_key_ab =
     inst_after (ConfigurableAB None None (Some ''MyTest'') (Some [('''', ''Side empty'')]) None ())"

definition empty_key_stored :: "(unit, unit, string, unit side_table) ab" where
  "empty_key_stored =
     (inst_after (ConfigurableAB None None (Some ''MyTest'')
        (Some [('''', ''Side empty''), (''A'', ''Side A'')])
        (Some (\<lambda>args rnd. Inr (Some ''A''))) []))
     \<lparr>storage := Some ListStorage\<rparr>"

section \<open>Lemmas\<close>

subsection \<open>The three sources of a side\<close>

lemma resolve_side_forced:
  "truthy f \<Longrightarrow> resolve_side self args f rnd st = (Inr f, st, [])"
  by (cases "storage self") (simp_all add: resolve_side_def)

lemma resolve_side_no_storage:
  "\<not> truthy f \<Longrightarrow> storage self = None \<Longrightarrow>
     resolve_side self args f rnd st = (select_side self args rnd, st, [SelectSideCall])"
  by (simp add: resolve_side_def)

lemma resolve_side_storage:
  "\<not> truthy f \<Longrightarrow> storage self = Some ops \<Longrightarrow>
   get_side ops (identity self) (name self) st = (r, st1) \<Longrightarrow>
     resolve_side self args f rnd st =
       (case r of
          Inl e \<Rightarrow> (Inl e, st1, [GetSideCall (identity self) (name self)])
        | Inr side \<Rightarrow>
            if truthy side then (Inr side, st1, [GetSideCall (identity self) (name self)])
            else (select_side self args rnd, st1,
                  [GetSideCall (identity self) (name self), SelectSideCall]))"
  by (simp add: resolve_side_def split: sum.splits)

lemma resolve_side_empty_force:
  "resolve_side self args (Some []) rnd st = resolve_side self args None rnd st"
  by (cases "storage self") (simp_all add: resolve_side_def)

subsection \<open>The branches of \<^verbatim>\<open>test\<close>\<close>

lemma allowed_sides_priv_side [simp]:
  "allowed_sides (self\<lparr>priv_side := x\<rparr>) = allowed_sides self"
  by (simp add: allowed_sides_def)

lemma test_unnamed:
  "\<not> truthy (name self) \<Longrightarrow>
     test self args f rnd st = (Inl (ABTestError TestShouldBeNamed), self, st, [])"
  by (simp add: test_def)

lemma test_no_sides:
  "truthy (name self) \<Longrightarrow> allowed_sides self = Inr als \<Longrightarrow> \<not> truthy_list als \<Longrightarrow>
     test self args f rnd st = (Inl (ABTestError (SidesNotGiven (name self))), self, st, [])"
  by (simp add: test_def)

lemma test_configured:
  "truthy (name self) \<Longrightarrow> allowed_sides self = Inr (Some xs) \<Longrightarrow> xs \<noteq> [] \<Longrightarrow>
   resolve_side self args f rnd st = (r, st1, tr) \<Longrightarrow>
     test self args f rnd st =
       (case r of
          Inl e \<Rightarrow> (Inl e, self, st1, tr)
        | Inr None \<Rightarrow> (Inl (ABTestError (UnknownSide None (name self))), self, st1, tr)
        | Inr (Some s) \<Rightarrow>
            if s = [] \<or> s \<notin> set xs
            then (Inl (ABTestError (UnknownSide (Some s) (name self))), self, st1, tr)
            else
              (case storage self of
                 None \<Rightarrow>
                   (apply_side (self\<lparr>priv_side := Some s\<rparr>) s args,
                    self\<lparr>priv_side := Some s\<rparr>, st1, tr @ [ApplySideCall s])
               | Some ops \<Rightarrow>
                   (case set_side ops (identity self) (name self) s st1 of
                      (Inl e, st2) \<Rightarrow>
                        (Inl e, self\<lparr>priv_side := Some s\<rparr>, st2,
                         tr @ [SetSideCall (identity self) (name self) s])
                    | (Inr u, st2) \<Rightarrow>
                        (apply_side (self\<lparr>priv_side := Some s\<rparr>) s args,
                         self\<lparr>priv_side := Some s\<rparr>, st2,
                         tr @ [SetSideCall (identity self) (name self) s, ApplySideCall s]))))"
  by (simp add: test_def Let_def split: sum.splits option.splits prod.splits)

lemma test_not_validated:
  "validated_side self args f rnd st = None \<Longrightarrow>
     inst_after (test self args f rnd st) = self \<and> (\<exists>e. outcome (test self args f rnd st) = Inl e)"
  by (auto simp: validated_side_def test_def split: if_splits sum.splits option.splits prod.splits)

lemma test_validated:
  "validated_side self args f rnd st = Some s \<Longrightarrow>
     inst_after (test self args f rnd st) = self\<lparr>priv_side := Some s\<rparr>"
  by (auto simp: validated_side_def test_def Let_def
        split: if_splits sum.splits option.splits prod.splits)

lemma test_success:
  "outcome (test self args f rnd st) = Inr v \<Longrightarrow> \<exists>s. validated_side self args f rnd st = Some s"
  using test_not_validated [of self args f rnd st]
  by (cases "validated_side self args f rnd st") auto

lemma validated_side_allowed:
  "validated_side self args f rnd st = Some s \<Longrightarrow>
     \<exists>xs. truthy (name self) \<and> allowed_sides self = Inr (Some xs) \<and> s \<noteq> [] \<and> s \<in> set xs
       \<and> fst (resolve_side self args f rnd st) = Inr (Some s)"
  by (auto simp: validated_side_def split: if_splits sum.splits option.splits)

lemma test_current_side:
  "current_side (inst_after (test self args f rnd st)) =
     (case validated_side self args f rnd st of None \<Rightarrow> current_side self | Some s \<Rightarrow> Some s)"
  using test_not_validated [of self args f rnd st] test_validated [of self args f rnd st]
  by (cases "validated_side self args f rnd st") (simp_all add: current_side_def)

lemma run_tests_current_side:
  "current_side (fst (run_tests self st cs)) =
     (if validated_sides self st cs = [] then current_side self
      else Some (last (validated_sides self st cs)))"
proof (induction cs arbitrary: self st)
  case Nil
  show ?case by simp
next
  case (Cons c cs)
  obtain args f rnd where c: "c = (args, f, rnd)" by (cases c) auto
  show ?case
    unfolding c run_tests.simps validated_sides.simps Cons.IH test_current_side
    by (cases "validated_side self args f rnd st") simp_all
qed

subsection \<open>A stored side\<close>

lemma test_stored:
  assumes n: "truthy (name self)" and a: "allowed_sides self = Inr (Some xs)"
    and f: "\<not> truthy f" and s: "storage self = Some ops"
    and g: "get_side ops (identity self) (name self) st = (Inr (Some S), st1)"
    and ne: "S \<noteq> []" and m: "S \<in> set xs"
  shows "test self args f rnd st =
     (case set_side ops (identity self) (name self) S st1 of
        (Inl e, st2) \<Rightarrow>
          (Inl e, self\<lparr>priv_side := Some S\<rparr>, st2,
           [GetSideCall (identity self) (name self), SetSideCall (identity self) (name self) S])
      | (Inr u, st2) \<Rightarrow>
          (apply_side (self\<lparr>priv_side := Some S\<rparr>) S args, self\<lparr>priv_side := Some S\<rparr>, st2,
           [GetSideCall (identity self) (name self), SetSideCall (identity self) (name self) S,
            ApplySideCall S]))"
proof -
  from m have xne: "xs \<noteq> []" by auto
  have r: "resolve_side self args f rnd st =
             (Inr (Some S), st1, [GetSideCall (identity self) (name self)])"
    using resolve_side_storage [OF f s g] ne by simp
  show ?thesis
    using test_configured [OF n a xne r] ne m s by (simp split: prod.splits sum.splits)
qed

lemma test_stored_no_select:
  assumes n: "truthy (name self)" and a: "allowed_sides self = Inr (Some xs)"
    and f: "\<not> truthy f" and s: "storage self = Some ops"
    and g: "get_side ops (identity self) (name self) st = (Inr (Some S), st1)"
    and ne: "S \<noteq> []" and m: "S \<in> set xs"
  shows "current_side (inst_after (test self args f rnd st)) = Some S
       \<and> SelectSideCall \<notin> set (calls (test self args f rnd st))
       \<and> outcome (test self args f rnd st) =
           (case fst (set_side ops (identity self) (name self) S st1) of
              Inl e \<Rightarrow> Inl e
            | Inr u \<Rightarrow> apply_side (self\<lparr>priv_side := Some S\<rparr>) S args)"
  unfolding test_stored [OF n a f s g ne m]
  by (cases "set_side ops (identity self) (name self) S st1")
     (auto simp: current_side_def split: sum.splits)

lemma test_success_storage:
  assumes t: "test self args f rnd st = (Inr v, self', st', tr)" and s: "storage self = Some ops"
  shows "\<exists>xs S st1. truthy (name self) \<and> allowed_sides self = Inr (Some xs) \<and> S \<noteq> [] \<and> S \<in> set xs
           \<and> self' = self\<lparr>priv_side := Some S\<rparr>
           \<and> set_side ops (identity self) (name self) S st1 = (Inr (), st')"
  using t s
  by (auto simp: test_def Let_def split: if_splits sum.splits option.splits prod.splits)

lemma storage_roundtrip:
  assumes t: "test self1 args1 f1 rnd1 st0 = (Inr v, self1', st', tr)"
    and s1: "storage self1 = Some ops" and s2: "storage self2 = Some ops"
    and i: "identity self2 = identity self1" and n: "name self2 = name self1"
    and a: "allowed_sides self2 = allowed_sides self1"
    and c: "\<forall>s st st2. set_side ops (identity self1) (name self1) s st = (Inr (), st2)
              \<longrightarrow> fst (get_side ops (identity self1) (name self1) st2) = Inr (Some s)"
  shows "\<exists>S. current_side self1' = Some S
           \<and> current_side (inst_after (test self2 args2 None rnd2 st')) = Some S
           \<and> SelectSideCall \<notin> set (calls (test self2 args2 None rnd2 st'))"
proof -
  from test_success_storage [OF t s1] obtain xs S st1 where
    n1: "truthy (name self1)" and a1: "allowed_sides self1 = Inr (Some xs)"
    and ne: "S \<noteq> []" and m: "S \<in> set xs" and self1': "self1' = self1\<lparr>priv_side := Some S\<rparr>"
    and set: "set_side ops (identity self1) (name self1) S st1 = (Inr (), st')"
    by blast
  from c set have "fst (get_side ops (identity self1) (name self1) st') = Inr (Some S)"
    by blast
  then obtain st'' where g: "get_side ops (identity self2) (name self2) st' = (Inr (Some S), st'')"
    unfolding i n by (cases "get_side ops (identity self1) (name self1) st'") auto
  have n2: "truthy (name self2)" using n1 n by simp
  have a2: "allowed_sides self2 = Inr (Some xs)" using a1 a by simp
  have f: "\<not> truthy None" by simp
  from test_stored_no_select [OF n2 a2 f s2 g ne m, of args2 rnd2] self1'
  show ?thesis by (simp add: current_side_def)
qed

subsection \<open>\<^verbatim>\<open>test\<close> by the source of its side\<close>

lemma test_forced:
  assumes n: "truthy (name self)" and a: "allowed_sides self = Inr (Some xs)"
    and ne: "s \<noteq> []" and m: "s \<in> set xs"
  shows "test self args (Some s) rnd st =
     (case storage self of
        None \<Rightarrow>
          (apply_side (self\<lparr>priv_side := Some s\<rparr>) s args, self\<lparr>priv_side := Some s\<rparr>, st,
           [ApplySideCall s])
      | Some ops \<Rightarrow>
          (case set_side ops (identity self) (name self) s st of
             (Inl e, st2) \<Rightarrow>
               (Inl e, self\<lparr>priv_side := Some s\<rparr>, st2,
                [SetSideCall (identity self) (name self) s])
           | (Inr u, st2) \<Rightarrow>
               (apply_side (self\<lparr>priv_side := Some s\<rparr>) s args, self\<lparr>priv_side := Some s\<rparr>,
                st2, [SetSideCall (identity self) (name self) s, ApplySideCall s])))"
proof -
  from m have xne: "xs \<noteq> []" by auto
  have r: "resolve_side self args (Some s) rnd st = (Inr (Some s), st, [])"
    using ne by (simp add: resolve_side_forced)
  show ?thesis
    using test_configured [OF n a xne r] ne m
    by (simp split: option.splits prod.splits sum.splits)
qed

lemma test_forced_invalid:
  assumes n: "truthy (name self)" and a: "allowed_sides self = Inr (Some xs)"
    and xne: "xs \<noteq> []" and ne: "s \<noteq> []" and m: "s \<notin> set xs"
  shows "test self args (Some s) rnd st =
           (Inl (ABTestError (UnknownSide (Some s) (name self))), self, st, [])"
proof -
  have r: "resolve_side self args (Some s) rnd st = (Inr (Some s), st, [])"
    using ne by (simp add: resolve_side_forced)
  show ?thesis
    using test_configured [OF n a xne r] m by simp
qed

lemma test_selected_no_storage:
  assumes n: "truthy (name self)" and a: "allowed_sides self = Inr (Some xs)"
    and xne: "xs \<noteq> []" and f: "\<not> truthy f" and s: "storage self = None"
  shows "test self args f rnd st =
     (case select_side self args rnd of
        Inl e \<Rightarrow> (Inl e, self, st, [SelectSideCall])
      | Inr None \<Rightarrow>
          (Inl (ABTestError (UnknownSide None (name self))), self, st, [SelectSideCall])
      | Inr (Some s) \<Rightarrow>
          if s = [] \<or> s \<notin> set xs
          then (Inl (ABTestError (UnknownSide (Some s) (name self))), self, st, [SelectSideCall])
          else (apply_side (self\<lparr>priv_side := Some s\<rparr>) s args, self\<lparr>priv_side := Some s\<rparr>,
                st, [SelectSideCall, ApplySideCall s]))"
  using test_configured [OF n a xne resolve_side_no_storage [OF f s]] s
  by (simp split: sum.splits option.splits)

lemma test_selected_storage:
  assumes n: "truthy (name self)" and a: "allowed_sides self = Inr (Some xs)"
    and xne: "xs \<noteq> []" and f: "\<not> truthy f" and s: "storage self = Some ops"
    and g: "get_side ops (identity self) (name self) st = (Inr r, st1)" and r: "\<not> truthy r"
  shows "test self args f rnd st =
     (case select_side self args rnd of
        Inl e \<Rightarrow> (Inl e, self, st1, [GetSideCall (identity self) (name self), SelectSideCall])
      | Inr None \<Rightarrow>
          (Inl (ABTestError (UnknownSide None (name self))), self, st1,
           [GetSideCall (identity self) (name self), SelectSideCall])
      | Inr (Some s) \<Rightarrow>
          if s = [] \<or> s \<notin> set xs
          then (Inl (ABTestError (UnknownSide (Some s) (name self))), self, st1,
                [GetSideCall (identity self) (name self), SelectSideCall])
          else
            (case set_side ops (identity self) (name self) s st1 of
               (Inl e, st2) \<Rightarrow>
                 (Inl e, self\<lparr>priv_side := Some s\<rparr>, st2,
                  [GetSideCall (identity self) (name self), SelectSideCall,
                   SetSideCall (identity self) (name self) s])
             | (Inr u, st2) \<Rightarrow>
                 (apply_side (self\<lparr>priv_side := Some s\<rparr>) s args, self\<lparr>priv_side := Some s\<rparr>,
                  st2,
                  [GetSideCall (identity self) (name self), SelectSideCall,
                   SetSideCall (identity self) (name self) s, ApplySideCall s])))"
proof -
  have rs: "resolve_side self args f rnd st =
      (select_side self args rnd, st1, [GetSideCall (identity self) (name self), SelectSideCall])"
    using resolve_side_storage [OF f s g] r by simp
  show ?thesis
    using test_configured [OF n a xne rs] s
    by (simp split: sum.splits option.splits prod.splits)
qed

lemma test_storage_raises:
  assumes n: "truthy (name self)" and a: "allowed_sides self = Inr (Some xs)"
    and xne: "xs \<noteq> []" and f: "\<not> truthy f" and s: "storage self = Some ops"
    and g: "get_side ops (identity self) (name self) st = (Inl e, st1)"
  shows "test self args f rnd st = (Inl e, self, st1, [GetSideCall (identity self) (name self)])"
proof -
  have rs: "resolve_side self args f rnd st =
      (Inl e, st1, [GetSideCall (identity self) (name self)])"
    using resolve_side_storage [OF f s g] by simp
  show ?thesis
    using test_configured [OF n a xne rs] by simp
qed

lemma test_stored_invalid:
  assumes n: "truthy (name self)" and a: "allowed_sides self = Inr (Some xs)"
    and xne: "xs \<noteq> []" and f: "\<not> truthy f" and s: "storage self = Some ops"
    and g: "get_side ops (identity self) (name self) st = (Inr (Some S), st1)"
    and ne: "S \<noteq> []" and m: "S \<notin> set xs"
  shows "test self args f rnd st =
           (Inl (ABTestError (UnknownSide (Some S) (name self))), self, st1,
            [GetSideCall (identity self) (name self)])"
proof -
  have r: "resolve_side self args f rnd st =
             (Inr (Some S), st1, [GetSideCall (identity self) (name self)])"
    using resolve_side_storage [OF f s g] ne by simp
  show ?thesis
    using test_configured [OF n a xne r] m by simp
qed

subsection \<open>The example instances, evaluated\<close>

lemma mytest_eq:
  "mytest = \<lparr>identity = None, storage = None, priv_side = None, name = Some ''MyTest'',
             kind = SimpleKind MyTest\<rparr>"
  by (simp add: mytest_def SimpleAB_def BaseAB_init_def new_object_def)

lemma mytest_dummy_eq:
  "mytest_dummy = \<lparr>identity = None, storage = Some DummyStorage, priv_side = None,
                   name = Some ''MyTest'', kind = SimpleKind MyTest\<rparr>"
  by (simp add: mytest_dummy_def SimpleAB_def BaseAB_init_def new_object_def allowed_sides_def
        DummyStorage_def)

lemma mytest_stored_eq:
  "mytest_stored = \<lparr>identity = None, storage = Some ListStorage, priv_side = None,
                    name = Some ''MyTest'', kind = SimpleKind MyTest\<rparr>"
  by (simp add: mytest_stored_def SimpleAB_def BaseAB_init_def new_object_def allowed_sides_def
        ListStorage_def)

lemma halftest_eq:
  "halftest = \<lparr>identity = None, storage = None, priv_side = None, name = Some ''HalfTest'',
               kind = SimpleKind HalfTest\<rparr>"
  by (simp add: halftest_def SimpleAB_def BaseAB_init_def new_object_def)

lemma myab_eq:
  "myab = \<lparr>identity = None, storage = None, priv_side = None, name = Some ''MyTest'',
           kind = ConfigurableKind (Assigned (Some [(''A'', ''Side A''), (''B'', ''Side B'')]))
                    (Assigned (Some (\<lambda>args rnd. choice (Inr (Some [''A'', ''B''])) rnd)))\<rparr>"
  by (simp add: myab_def ConfigurableAB_def ConfigurableAB_init_def BaseAB_init_def new_object_def)

lemma unnamed_ab_eq:
  "unnamed_ab = \<lparr>identity = None, storage = None, priv_side = None, name = None,
                 kind = ConfigurableKind (Assigned (Some [(''A'', ''Side A'')])) (Assigned None)\<rparr>"
  by (simp add: unnamed_ab_def ConfigurableAB_def ConfigurableAB_init_def BaseAB_init_def
        new_object_def)

lemma no_sides_ab_eq:
  "no_sides_ab = \<lparr>identity = None, storage = None, priv_side = None, name = Some ''MyTest'',
                  kind = ConfigurableKind (Assigned None) (Assigned None)\<rparr>"
  by (simp add: no_sides_ab_def ConfigurableAB_def ConfigurableAB_init_def BaseAB_init_def
        new_object_def)

lemma empty_key_ab_eq:
  "empty_key_ab = \<lparr>identity = None, storage = None, priv_side = None, name = Some ''MyTest'',
                   kind = ConfigurableKind (Assigned (Some [('''', ''Side empty'')])) (Assigned None)\<rparr>"
  by (simp add: empty_key_ab_def ConfigurableAB_def ConfigurableAB_init_def BaseAB_init_def
        new_object_def)

lemma empty_key_stored_eq:
  "empty_key_stored = \<lparr>identity = None, storage = Some ListStorage, priv_side = None,
       name = Some ''MyTest'',
       kind = ConfigurableKind (Assigned (Some [('''', ''Side empty''), (''A'', ''Side A'')]))
                (Assigned (Some (\<lambda>args rnd. Inr (Some ''A''))))\<rparr>"
  by (simp add: empty_key_stored_def ConfigurableAB_def ConfigurableAB_init_def BaseAB_init_def
        new_object_def)

lemma allowed_sides_MyTest:
  "kind self = SimpleKind MyTest \<Longrightarrow> allowed_sides self = Inr (Some [''A'', ''B'', ''C''])"
  by (simp add: allowed_sides_def MyTest_def dir_names_def)

lemma allowed_sides_HalfTest:
  "kind self = SimpleKind HalfTest \<Longrightarrow> allowed_sides self = Inr (Some [''A'', ''B''])"
  by (simp add: allowed_sides_def HalfTest_def dir_names_def)

section \<open>The claims\<close>

subsection \<open>C1: a forced side of \<^verbatim>\<open>ConfigurableAB\<close>\<close>

text \<open>
  Claim C1, amended. For every \<^verbatim>\<open>ConfigurableAB\<close> with a non-empty name and a non-empty
  mapping, and every \<^emph>\<open>non-empty\<close> forced side that is a member of \<open>allowed_sides\<close>,
  \<^verbatim>\<open>test(force_side=forced)\<close> returns exactly the value the mapping associates with the
  forced side, and \<open>current_side\<close> afterwards equals the forced side (an attached storage
  being one whose \<^verbatim>\<open>set_side\<close> returns normally). The empty string is excluded: as a
  forced side it counts as no forced side, even when it is a key of the mapping.
\<close>

theorem forced_side_returns_mapped_value:
  assumes k: "kind self = ConfigurableKind (Assigned (Some items)) sel"
    and n: "truthy (name self)"
    and a: "allowed_sides self = Inr (Some xs)"
    and m: "forced \<in> set xs"
    and ne: "forced \<noteq> []"
    and s: "case storage self of
              None \<Rightarrow> True
            | Some ops \<Rightarrow> fst (set_side ops (identity self) (name self) forced st) = Inr ()"
  shows "\<exists>v. map_of items forced = Some v
           \<and> outcome (test self args (Some forced) rnd st) = Inr v
           \<and> current_side (inst_after (test self args (Some forced) rnd st)) = Some forced"
proof -
  from k a have xs: "xs = map fst items"
    by (simp add: allowed_sides_def split: if_splits)
  with m obtain v where v: "map_of items forced = Some v"
    by (cases "map_of items forced") (auto simp: map_of_eq_None_iff)
  from m have xne: "xs \<noteq> []" by auto
  have r: "resolve_side self args (Some forced) rnd st = (Inr (Some forced), st, [])"
    using ne by (simp add: resolve_side_forced)
  have ap: "apply_side (self\<lparr>priv_side := Some forced\<rparr>) forced args = Inr v"
    using k v by (simp add: apply_side_def)
  show ?thesis
  proof (cases "storage self")
    case None
    then show ?thesis
      using test_configured [OF n a xne r] m ne v ap by (simp add: current_side_def)
  next
    case (Some ops)
    with s obtain st2 where "set_side ops (identity self) (name self) forced st = (Inr (), st2)"
      by (cases "set_side ops (identity self) (name self) forced st") auto
    with Some show ?thesis
      using test_configured [OF n a xne r] m ne v ap by (simp add: current_side_def)
  qed
qed

text \<open>
  \<^verbatim>\<open>myab.test(force_side='B')\<close> returns \<^verbatim>\<open>'Side B'\<close> and leaves
  \<^verbatim>\<open>current_side == 'B'\<close>.
\<close>

theorem forced_side_returns_mapped_value_witness:
  "truthy (name myab) \<and> allowed_sides myab = Inr (Some [''A'', ''B''])
   \<and> outcome (test myab () (Some ''B'') 0 ()) = Inr ''Side B''
   \<and> current_side (inst_after (test myab () (Some ''B'') 0 ())) = Some ''B''"
proof -
  have k: "kind myab = ConfigurableKind (Assigned (Some [(''A'', ''Side A''), (''B'', ''Side B'')]))
             (Assigned (Some (\<lambda>args rnd. choice (Inr (Some [''A'', ''B''])) rnd)))"
    by (simp add: myab_eq)
  have n: "truthy (name myab)" by (simp add: myab_eq)
  have a: "allowed_sides myab = Inr (Some [''A'', ''B''])"
    by (simp add: myab_eq allowed_sides_def)
  have m: "''B'' \<in> set [''A'', ''B'']" by simp
  have ne: "''B'' \<noteq> []" by simp
  have s: "case storage myab of
             None \<Rightarrow> True
           | Some ops \<Rightarrow> fst (set_side ops (identity myab) (name myab) ''B'' ()) = Inr ()"
    by (simp add: myab_eq)
  from forced_side_returns_mapped_value [OF k n a m ne s, of "()" 0] n a
  show ?thesis by simp
qed

text \<open>
  \<^verbatim>\<open>ConfigurableAB(name='MyTest', sides={'': 'Side empty'}).test(force_side='')\<close>: the
  forced side is a member of \<open>allowed_sides\<close> and the mapping gives it the value
  \<^verbatim>\<open>'Side empty'\<close>, yet the call selects a side afresh and raises.
\<close>

theorem forced_empty_side_counterexample:
  "truthy (name empty_key_ab)
   \<and> allowed_sides empty_key_ab = Inr (Some [''''])
   \<and> apply_side empty_key_ab '''' () = Inr ''Side empty''
   \<and> test empty_key_ab () (Some '''') 0 () =
       (Inl (ABTestError (UnknownSide (Some '''') (Some ''MyTest''))), empty_key_ab, (),
        [SelectSideCall])
   \<and> current_side empty_key_ab = None"
  by (simp add: empty_key_ab_eq test_def resolve_side_def allowed_sides_def apply_side_def
        select_side_def choice_def current_side_def)

subsection \<open>C2: the resolved side is an allowed side\<close>

text \<open>
  Claim C2. After every call of \<^verbatim>\<open>test\<close> that returns, whichever of the forced side,
  the stored side or a fresh selection resolved it, \<open>current_side\<close> is a member of
  \<open>allowed_sides\<close>; and when the instance has a non-empty name and non-empty
  \<open>allowed_sides\<close> and the resolution produces \<^verbatim>\<open>None\<close>, the empty string or a side
  outside \<open>allowed_sides\<close>, the call raises \<^verbatim>\<open>ABTestError('Unknown side ...')\<close>, the
  validation error, and the instance is as before the call.
\<close>

theorem resolved_side_is_allowed:
  "(outcome (test self args f rnd st) = Inr v \<longrightarrow>
      (\<exists>s xs. current_side (inst_after (test self args f rnd st)) = Some s
         \<and> allowed_sides self = Inr (Some xs)
         \<and> allowed_sides (inst_after (test self args f rnd st)) = Inr (Some xs)
         \<and> s \<in> set xs))
   \<and> (truthy (name self) \<and> allowed_sides self = Inr (Some ys) \<and> ys \<noteq> []
        \<and> resolve_side self args f rnd st = (Inr side, st1, tr)
        \<and> (\<forall>s. side = Some s \<longrightarrow> s = [] \<or> s \<notin> set ys) \<longrightarrow>
      test self args f rnd st =
        (Inl (ABTestError (UnknownSide side (name self))), self, st1, tr))"
proof (intro conjI impI)
  assume ok: "outcome (test self args f rnd st) = Inr v"
  from test_success [OF ok] obtain s where vs: "validated_side self args f rnd st = Some s"
    by blast
  from validated_side_allowed [OF vs] obtain xs where
    xs: "allowed_sides self = Inr (Some xs)" and m: "s \<in> set xs"
    by blast
  have "inst_after (test self args f rnd st) = self\<lparr>priv_side := Some s\<rparr>"
    by (rule test_validated [OF vs])
  with xs m show "\<exists>s xs. current_side (inst_after (test self args f rnd st)) = Some s
         \<and> allowed_sides self = Inr (Some xs)
         \<and> allowed_sides (inst_after (test self args f rnd st)) = Inr (Some xs)
         \<and> s \<in> set xs"
    by (simp add: current_side_def)
next
  assume h: "truthy (name self) \<and> allowed_sides self = Inr (Some ys) \<and> ys \<noteq> []
        \<and> resolve_side self args f rnd st = (Inr side, st1, tr)
        \<and> (\<forall>s. side = Some s \<longrightarrow> s = [] \<or> s \<notin> set ys)"
  then have n: "truthy (name self)" and a: "allowed_sides self = Inr (Some ys)"
    and ne: "ys \<noteq> []" and r: "resolve_side self args f rnd st = (Inr side, st1, tr)"
    and out: "\<forall>s. side = Some s \<longrightarrow> s = [] \<or> s \<notin> set ys"
    by simp_all
  show "test self args f rnd st =
        (Inl (ABTestError (UnknownSide side (name self))), self, st1, tr)"
    using test_configured [OF n a ne r] out by (cases side) auto
qed

text \<open>
  \<^verbatim>\<open>myab.test()\<close> with the selector drawing \<^verbatim>\<open>'B'\<close> returns and leaves
  \<^verbatim>\<open>current_side == 'B'\<close>; \<^verbatim>\<open>myab.test(force_side='Z')\<close> resolves to \<^verbatim>\<open>'Z'\<close> and
  raises.
\<close>

theorem resolved_side_is_allowed_witness:
  "outcome (test myab () None 1 ()) = Inr ''Side B''
   \<and> current_side (inst_after (test myab () None 1 ())) = Some ''B''
   \<and> allowed_sides myab = Inr (Some [''A'', ''B''])
   \<and> resolve_side myab () (Some ''Z'') 0 () = (Inr (Some ''Z''), (), [])
   \<and> test myab () (Some ''Z'') 0 () =
       (Inl (ABTestError (UnknownSide (Some ''Z'') (Some ''MyTest''))), myab, (), [])"
proof -
  have ok: "outcome (test myab () None 1 ()) = Inr ''Side B''"
    by (simp add: myab_eq test_def resolve_side_def allowed_sides_def apply_side_def
          select_side_def choice_def)
  have cs: "current_side (inst_after (test myab () None 1 ())) = Some ''B''"
    by (simp add: myab_eq test_def resolve_side_def allowed_sides_def apply_side_def
          select_side_def choice_def current_side_def)
  have a: "allowed_sides myab = Inr (Some [''A'', ''B''])"
    by (simp add: myab_eq allowed_sides_def)
  have r: "resolve_side myab () (Some ''Z'') 0 () = (Inr (Some ''Z''), (), [])"
    by (simp add: resolve_side_forced)
  have h: "truthy (name myab) \<and> allowed_sides myab = Inr (Some [''A'', ''B''])
        \<and> [''A'', ''B''] \<noteq> []
        \<and> resolve_side myab () (Some ''Z'') 0 () = (Inr (Some ''Z''), (), [])
        \<and> (\<forall>s. Some ''Z'' = Some s \<longrightarrow> s = [] \<or> s \<notin> set [''A'', ''B''])"
    using a r by (simp add: myab_eq)
  from resolved_side_is_allowed
         [of myab "()" None 1 "()" "''Side B''" "[''A'', ''B'']" "Some ''Z''" "()" "[]"]
       resolved_side_is_allowed
         [of myab "()" "Some ''Z''" 0 "()" "''Side B''" "[''A'', ''B'']" "Some ''Z''" "()" "[]"]
       ok cs a r h
  show ?thesis by (simp add: myab_eq)
qed
subsection \<open>C3: forced, then stored, then selected\<close>

text \<open>
  Claim C3, amended. The side of a call of \<^verbatim>\<open>test\<close> is the forced side if a non-empty one
  is given: the call then asks neither the storage nor \<^verbatim>\<open>select_side\<close>, whatever the
  storage holds, and either takes the forced side or rejects it. Otherwise, with a storage
  attached, it is the side \<open>S\<close> that \<^verbatim>\<open>get_side(identity, name)\<close> returns, if \<open>S\<close> is
  \<^emph>\<open>non-empty\<close>: when \<open>S\<close> is in \<open>allowed_sides\<close> the call resolves to \<open>S\<close>, never calls
  \<^verbatim>\<open>select_side\<close>, and returns what \<^verbatim>\<open>apply_side\<close> gives for \<open>S\<close> (or raises what
  \<^verbatim>\<open>set_side\<close> raises). Otherwise (no storage, or the storage returns \<^verbatim>\<open>None\<close> or
  the empty string) it is the side \<^verbatim>\<open>select_side\<close> returns. In particular, after a call
  of \<^verbatim>\<open>test\<close> that returned, on a storage whose \<^verbatim>\<open>get_side\<close> returns what
  \<^verbatim>\<open>set_side\<close> stored, a second instance with the same identity, name, storage and
  allowed sides resolves to the same side without calling \<^verbatim>\<open>select_side\<close>. A stored
  empty string is excluded: it counts as no stored side, even when it is an allowed side.
  Each statement is made for \<^verbatim>\<open>test\<close> itself, and the first three also for the lines 123
  to 130 alone.
\<close>

theorem stored_side_precedence:
  "(truthy f \<longrightarrow> resolve_side self args f rnd st = (Inr f, st, []))
   \<and> (\<not> truthy f \<and> storage self = Some ops
        \<and> get_side ops (identity self) (name self) st = (Inr (Some S), st1) \<and> S \<noteq> [] \<longrightarrow>
      resolve_side self args f rnd st =
        (Inr (Some S), st1, [GetSideCall (identity self) (name self)]))
   \<and> (\<not> truthy f \<and> storage self = None \<longrightarrow>
      resolve_side self args f rnd st = (select_side self args rnd, st, [SelectSideCall]))
   \<and> (truthy (name self) \<and> allowed_sides self = Inr (Some xs) \<and> fs \<noteq> [] \<and> fs \<in> set xs \<longrightarrow>
      test self args (Some fs) rnd st =
        (case storage self of
           None \<Rightarrow>
             (apply_side (self\<lparr>priv_side := Some fs\<rparr>) fs args, self\<lparr>priv_side := Some fs\<rparr>, st,
              [ApplySideCall fs])
         | Some so \<Rightarrow>
             (case set_side so (identity self) (name self) fs st of
                (Inl e, st2) \<Rightarrow>
                  (Inl e, self\<lparr>priv_side := Some fs\<rparr>, st2,
                   [SetSideCall (identity self) (name self) fs])
              | (Inr u, st2) \<Rightarrow>
                  (apply_side (self\<lparr>priv_side := Some fs\<rparr>) fs args,
                   self\<lparr>priv_side := Some fs\<rparr>, st2,
                   [SetSideCall (identity self) (name self) fs, ApplySideCall fs]))))
   \<and> (truthy (name self) \<and> allowed_sides self = Inr (Some xs) \<and> xs \<noteq> []
        \<and> fs \<noteq> [] \<and> fs \<notin> set xs \<longrightarrow>
      test self args (Some fs) rnd st =
        (Inl (ABTestError (UnknownSide (Some fs) (name self))), self, st, []))
   \<and> (truthy (name self) \<and> allowed_sides self = Inr (Some xs) \<and> \<not> truthy f
        \<and> storage self = Some ops
        \<and> get_side ops (identity self) (name self) st = (Inr (Some S), st1)
        \<and> S \<noteq> [] \<and> S \<in> set xs \<longrightarrow>
      test self args f rnd st =
        (case set_side ops (identity self) (name self) S st1 of
           (Inl e, st2) \<Rightarrow>
             (Inl e, self\<lparr>priv_side := Some S\<rparr>, st2,
              [GetSideCall (identity self) (name self), SetSideCall (identity self) (name self) S])
         | (Inr u, st2) \<Rightarrow>
             (apply_side (self\<lparr>priv_side := Some S\<rparr>) S args, self\<lparr>priv_side := Some S\<rparr>, st2,
              [GetSideCall (identity self) (name self), SetSideCall (identity self) (name self) S,
               ApplySideCall S])))
   \<and> (truthy (name self) \<and> allowed_sides self = Inr (Some xs) \<and> \<not> truthy f
        \<and> storage self = Some ops
        \<and> get_side ops (identity self) (name self) st = (Inr (Some S), st1)
        \<and> S \<noteq> [] \<and> S \<in> set xs \<longrightarrow>
      current_side (inst_after (test self args f rnd st)) = Some S
      \<and> SelectSideCall \<notin> set (calls (test self args f rnd st))
      \<and> outcome (test self args f rnd st) =
          (case fst (set_side ops (identity self) (name self) S st1) of
             Inl e \<Rightarrow> Inl e
           | Inr u \<Rightarrow> apply_side (self\<lparr>priv_side := Some S\<rparr>) S args))
   \<and> (truthy (name self) \<and> allowed_sides self = Inr (Some xs) \<and> xs \<noteq> [] \<and> \<not> truthy f
        \<and> storage self = None \<longrightarrow>
      test self args f rnd st =
        (case select_side self args rnd of
           Inl e \<Rightarrow> (Inl e, self, st, [SelectSideCall])
         | Inr None \<Rightarrow>
             (Inl (ABTestError (UnknownSide None (name self))), self, st, [SelectSideCall])
         | Inr (Some s) \<Rightarrow>
             if s = [] \<or> s \<notin> set xs
             then (Inl (ABTestError (UnknownSide (Some s) (name self))), self, st,
                   [SelectSideCall])
             else (apply_side (self\<lparr>priv_side := Some s\<rparr>) s args, self\<lparr>priv_side := Some s\<rparr>,
                   st, [SelectSideCall, ApplySideCall s])))
   \<and> (truthy (name self) \<and> allowed_sides self = Inr (Some xs) \<and> xs \<noteq> [] \<and> \<not> truthy f
        \<and> storage self = Some ops
        \<and> get_side ops (identity self) (name self) st = (Inr r, st3) \<and> \<not> truthy r \<longrightarrow>
      test self args f rnd st =
        (case select_side self args rnd of
           Inl e \<Rightarrow> (Inl e, self, st3, [GetSideCall (identity self) (name self), SelectSideCall])
         | Inr None \<Rightarrow>
             (Inl (ABTestError (UnknownSide None (name self))), self, st3,
              [GetSideCall (identity self) (name self), SelectSideCall])
         | Inr (Some s) \<Rightarrow>
             if s = [] \<or> s \<notin> set xs
             then (Inl (ABTestError (UnknownSide (Some s) (name self))), self, st3,
                   [GetSideCall (identity self) (name self), SelectSideCall])
             else
               (case set_side ops (identity self) (name self) s st3 of
                  (Inl e, st2) \<Rightarrow>
                    (Inl e, self\<lparr>priv_side := Some s\<rparr>, st2,
                     [GetSideCall (identity self) (name self), SelectSideCall,
                      SetSideCall (identity self) (name self) s])
                | (Inr u, st2) \<Rightarrow>
                    (apply_side (self\<lparr>priv_side := Some s\<rparr>) s args,
                     self\<lparr>priv_side := Some s\<rparr>, st2,
                     [GetSideCall (identity self) (name self), SelectSideCall,
                      SetSideCall (identity self) (name self) s, ApplySideCall s]))))
   \<and> (test self1 args1 f1 rnd1 st0 = (Inr v, self1', st', tr)
        \<and> storage self1 = Some ops1 \<and> storage self2 = Some ops1
        \<and> identity self2 = identity self1 \<and> name self2 = name self1
        \<and> allowed_sides self2 = allowed_sides self1
        \<and> (\<forall>s sa sb. set_side ops1 (identity self1) (name self1) s sa = (Inr (), sb)
              \<longrightarrow> fst (get_side ops1 (identity self1) (name self1) sb) = Inr (Some s)) \<longrightarrow>
      (\<exists>T. current_side self1' = Some T
         \<and> current_side (inst_after (test self2 args2 None rnd2 st')) = Some T
         \<and> SelectSideCall \<notin> set (calls (test self2 args2 None rnd2 st'))))"
proof -
  have p1: "truthy f \<longrightarrow> resolve_side self args f rnd st = (Inr f, st, [])"
    by (simp add: resolve_side_forced)
  have p2: "\<not> truthy f \<and> storage self = Some ops
        \<and> get_side ops (identity self) (name self) st = (Inr (Some S), st1) \<and> S \<noteq> [] \<longrightarrow>
      resolve_side self args f rnd st =
        (Inr (Some S), st1, [GetSideCall (identity self) (name self)])"
    by (simp add: resolve_side_storage)
  have p3: "\<not> truthy f \<and> storage self = None \<longrightarrow>
      resolve_side self args f rnd st = (select_side self args rnd, st, [SelectSideCall])"
    by (simp add: resolve_side_no_storage)
  have q1: "truthy (name self) \<and> allowed_sides self = Inr (Some xs) \<and> fs \<noteq> [] \<and> fs \<in> set xs \<longrightarrow>
      test self args (Some fs) rnd st =
        (case storage self of
           None \<Rightarrow>
             (apply_side (self\<lparr>priv_side := Some fs\<rparr>) fs args, self\<lparr>priv_side := Some fs\<rparr>, st,
              [ApplySideCall fs])
         | Some so \<Rightarrow>
             (case set_side so (identity self) (name self) fs st of
                (Inl e, st2) \<Rightarrow>
                  (Inl e, self\<lparr>priv_side := Some fs\<rparr>, st2,
                   [SetSideCall (identity self) (name self) fs])
              | (Inr u, st2) \<Rightarrow>
                  (apply_side (self\<lparr>priv_side := Some fs\<rparr>) fs args,
                   self\<lparr>priv_side := Some fs\<rparr>, st2,
                   [SetSideCall (identity self) (name self) fs, ApplySideCall fs])))"
    by (intro impI, elim conjE, rule test_forced; assumption)
  have q2: "truthy (name self) \<and> allowed_sides self = Inr (Some xs) \<and> xs \<noteq> []
        \<and> fs \<noteq> [] \<and> fs \<notin> set xs \<longrightarrow>
      test self args (Some fs) rnd st =
        (Inl (ABTestError (UnknownSide (Some fs) (name self))), self, st, [])"
    by (intro impI, elim conjE, rule test_forced_invalid; assumption)
  have q3: "truthy (name self) \<and> allowed_sides self = Inr (Some xs) \<and> \<not> truthy f
        \<and> storage self = Some ops
        \<and> get_side ops (identity self) (name self) st = (Inr (Some S), st1)
        \<and> S \<noteq> [] \<and> S \<in> set xs \<longrightarrow>
      test self args f rnd st =
        (case set_side ops (identity self) (name self) S st1 of
           (Inl e, st2) \<Rightarrow>
             (Inl e, self\<lparr>priv_side := Some S\<rparr>, st2,
              [GetSideCall (identity self) (name self), SetSideCall (identity self) (name self) S])
         | (Inr u, st2) \<Rightarrow>
             (apply_side (self\<lparr>priv_side := Some S\<rparr>) S args, self\<lparr>priv_side := Some S\<rparr>, st2,
              [GetSideCall (identity self) (name self), SetSideCall (identity self) (name self) S,
               ApplySideCall S]))"
    by (intro impI, elim conjE, rule test_stored; assumption)
  have p4: "truthy (name self) \<and> allowed_sides self = Inr (Some xs) \<and> \<not> truthy f
        \<and> storage self = Some ops
        \<and> get_side ops (identity self) (name self) st = (Inr (Some S), st1)
        \<and> S \<noteq> [] \<and> S \<in> set xs \<longrightarrow>
      current_side (inst_after (test self args f rnd st)) = Some S
      \<and> SelectSideCall \<notin> set (calls (test self args f rnd st))
      \<and> outcome (test self args f rnd st) =
          (case fst (set_side ops (identity self) (name self) S st1) of
             Inl e \<Rightarrow> Inl e
           | Inr u \<Rightarrow> apply_side (self\<lparr>priv_side := Some S\<rparr>) S args)"
    by (intro impI, elim conjE, rule test_stored_no_select; assumption)
  have q4: "truthy (name self) \<and> allowed_sides self = Inr (Some xs) \<and> xs \<noteq> [] \<and> \<not> truthy f
        \<and> storage self = None \<longrightarrow>
      test self args f rnd st =
        (case select_side self args rnd of
           Inl e \<Rightarrow> (Inl e, self, st, [SelectSideCall])
         | Inr None \<Rightarrow>
             (Inl (ABTestError (UnknownSide None (name self))), self, st, [SelectSideCall])
         | Inr (Some s) \<Rightarrow>
             if s = [] \<or> s \<notin> set xs
             then (Inl (ABTestError (UnknownSide (Some s) (name self))), self, st,
                   [SelectSideCall])
             else (apply_side (self\<lparr>priv_side := Some s\<rparr>) s args, self\<lparr>priv_side := Some s\<rparr>,
                   st, [SelectSideCall, ApplySideCall s]))"
    by (intro impI, elim conjE, rule test_selected_no_storage; assumption)
  have q5: "truthy (name self) \<and> allowed_sides self = Inr (Some xs) \<and> xs \<noteq> [] \<and> \<not> truthy f
        \<and> storage self = Some ops
        \<and> get_side ops (identity self) (name self) st = (Inr r, st3) \<and> \<not> truthy r \<longrightarrow>
      test self args f rnd st =
        (case select_side self args rnd of
           Inl e \<Rightarrow> (Inl e, self, st3, [GetSideCall (identity self) (name self), SelectSideCall])
         | Inr None \<Rightarrow>
             (Inl (ABTestError (UnknownSide None (name self))), self, st3,
              [GetSideCall (identity self) (name self), SelectSideCall])
         | Inr (Some s) \<Rightarrow>
             if s = [] \<or> s \<notin> set xs
             then (Inl (ABTestError (UnknownSide (Some s) (name self))), self, st3,
                   [GetSideCall (identity self) (name self), SelectSideCall])
             else
               (case set_side ops (identity self) (name self) s st3 of
                  (Inl e, st2) \<Rightarrow>
                    (Inl e, self\<lparr>priv_side := Some s\<rparr>, st2,
                     [GetSideCall (identity self) (name self), SelectSideCall,
                      SetSideCall (identity self) (name self) s])
                | (Inr u, st2) \<Rightarrow>
                    (apply_side (self\<lparr>priv_side := Some s\<rparr>) s args,
                     self\<lparr>priv_side := Some s\<rparr>, st2,
                     [GetSideCall (identity self) (name self), SelectSideCall,
                      SetSideCall (identity self) (name self) s, ApplySideCall s])))"
    by (intro impI, elim conjE, rule test_selected_storage; assumption)
  have p5: "test self1 args1 f1 rnd1 st0 = (Inr v, self1', st', tr)
        \<and> storage self1 = Some ops1 \<and> storage self2 = Some ops1
        \<and> identity self2 = identity self1 \<and> name self2 = name self1
        \<and> allowed_sides self2 = allowed_sides self1
        \<and> (\<forall>s sa sb. set_side ops1 (identity self1) (name self1) s sa = (Inr (), sb)
              \<longrightarrow> fst (get_side ops1 (identity self1) (name self1) sb) = Inr (Some s)) \<longrightarrow>
      (\<exists>T. current_side self1' = Some T
         \<and> current_side (inst_after (test self2 args2 None rnd2 st')) = Some T
         \<and> SelectSideCall \<notin> set (calls (test self2 args2 None rnd2 st')))"
    by (intro impI, elim conjE, rule storage_roundtrip; assumption)
  show ?thesis
    by (rule conjI [OF p1 conjI [OF p2 conjI [OF p3 conjI [OF q1 conjI [OF q2 conjI [OF q3
          conjI [OF p4 conjI [OF q4 conjI [OF q5 p5]]]]]]]]])
qed

text \<open>
  Two instances of \<^verbatim>\<open>MyTest\<close> on one storage that keeps the sides. The first call selects
  \<^verbatim>\<open>'B'\<close> (the random index is 1) and stores it; the second instance, whose random index
  0 would select \<^verbatim>\<open>'A'\<close>, resolves to \<^verbatim>\<open>'B'\<close> and does not call
  \<^verbatim>\<open>select_side\<close>. With \<^verbatim>\<open>'B'\<close> stored, \<^verbatim>\<open>test(force_side='C')\<close> returns
  \<^verbatim>\<open>'Side C'\<close> and asks neither the storage nor \<^verbatim>\<open>select_side\<close>.
\<close>

theorem stored_side_precedence_witness:
  "test mytest_stored () None 1 [] =
     (Inr ''Side B'', mytest_stored\<lparr>priv_side := Some ''B''\<rparr>, [((None, Some ''MyTest''), ''B'')],
      [GetSideCall None (Some ''MyTest''), SelectSideCall,
       SetSideCall None (Some ''MyTest'') ''B'', ApplySideCall ''B''])
   \<and> current_side (inst_after (test mytest_stored () None 0 [((None, Some ''MyTest''), ''B'')]))
       = Some ''B''
   \<and> SelectSideCall \<notin> set (calls (test mytest_stored () None 0 [((None, Some ''MyTest''), ''B'')]))
   \<and> test mytest_stored () (Some ''C'') 0 [((None, Some ''MyTest''), ''B'')] =
       (Inr ''Side C'', mytest_stored\<lparr>priv_side := Some ''C''\<rparr>,
        [((None, Some ''MyTest''), ''C''), ((None, Some ''MyTest''), ''B'')],
        [SetSideCall None (Some ''MyTest'') ''C'', ApplySideCall ''C''])"
proof -
  have t: "test mytest_stored () None 1 [] =
     (Inr ''Side B'', mytest_stored\<lparr>priv_side := Some ''B''\<rparr>, [((None, Some ''MyTest''), ''B'')],
      [GetSideCall None (Some ''MyTest''), SelectSideCall,
       SetSideCall None (Some ''MyTest'') ''B'', ApplySideCall ''B''])"
    by (simp add: mytest_stored_eq test_def resolve_side_def allowed_sides_MyTest select_side_def
          choice_def apply_side_def ListStorage_def MyTest_def)
  have s: "storage mytest_stored = Some ListStorage"
    by (simp add: mytest_stored_eq)
  have c: "\<forall>s sa sb.
      set_side ListStorage (identity mytest_stored) (name mytest_stored) s sa = (Inr (), sb)
        \<longrightarrow> fst (get_side ListStorage (identity mytest_stored) (name mytest_stored) sb)
              = Inr (Some s)"
    by (auto simp: ListStorage_def)
  have h: "test mytest_stored () None 1 [] =
        (Inr ''Side B'', mytest_stored\<lparr>priv_side := Some ''B''\<rparr>,
         [((None, Some ''MyTest''), ''B'')],
         [GetSideCall None (Some ''MyTest''), SelectSideCall,
          SetSideCall None (Some ''MyTest'') ''B'', ApplySideCall ''B''])
      \<and> storage mytest_stored = Some ListStorage \<and> storage mytest_stored = Some ListStorage
      \<and> identity mytest_stored = identity mytest_stored \<and> name mytest_stored = name mytest_stored
      \<and> allowed_sides mytest_stored = allowed_sides mytest_stored
      \<and> (\<forall>s sa sb.
            set_side ListStorage (identity mytest_stored) (name mytest_stored) s sa = (Inr (), sb)
              \<longrightarrow> fst (get_side ListStorage (identity mytest_stored) (name mytest_stored) sb)
                    = Inr (Some s))"
    using t s c by simp
  have rt: "\<exists>T. current_side (mytest_stored\<lparr>priv_side := Some ''B''\<rparr>) = Some T
         \<and> current_side (inst_after (test mytest_stored () None 0 [((None, Some ''MyTest''), ''B'')]))
             = Some T
         \<and> SelectSideCall \<notin> set (calls (test mytest_stored () None 0 [((None, Some ''MyTest''), ''B'')]))"
    by (rule stored_side_precedence
            [where ?self1.0 = mytest_stored and ?args1.0 = "()" and ?f1.0 = None and ?rnd1.0 = 1
               and ?st0.0 = "[]" and v = "''Side B''"
               and ?self1' = "mytest_stored\<lparr>priv_side := Some ''B''\<rparr>"
               and st' = "[((None, Some ''MyTest''), ''B'')]"
               and tr = "[GetSideCall None (Some ''MyTest''), SelectSideCall,
                          SetSideCall None (Some ''MyTest'') ''B'', ApplySideCall ''B'']"
               and ?ops1.0 = ListStorage and ?self2.0 = mytest_stored and ?args2.0 = "()"
               and ?rnd2.0 = 0,
             THEN conjunct2, THEN conjunct2, THEN conjunct2, THEN conjunct2, THEN conjunct2,
             THEN conjunct2, THEN conjunct2, THEN conjunct2, THEN conjunct2, THEN mp, OF h])
  have k: "kind mytest_stored = SimpleKind MyTest" and i: "identity mytest_stored = None"
    and n: "name mytest_stored = Some ''MyTest''"
    by (simp_all add: mytest_stored_eq)
  have hf: "truthy (name mytest_stored)
      \<and> allowed_sides mytest_stored = Inr (Some [''A'', ''B'', ''C''])
      \<and> ''C'' \<noteq> [] \<and> ''C'' \<in> set [''A'', ''B'', ''C'']"
    using allowed_sides_MyTest [OF k] n by simp
  have fo: "test mytest_stored () (Some ''C'') 0 [((None, Some ''MyTest''), ''B'')] =
       (Inr ''Side C'', mytest_stored\<lparr>priv_side := Some ''C''\<rparr>,
        [((None, Some ''MyTest''), ''C''), ((None, Some ''MyTest''), ''B'')],
        [SetSideCall None (Some ''MyTest'') ''C'', ApplySideCall ''C''])"
    using stored_side_precedence
            [where self = mytest_stored and args = "()" and rnd = 0
               and st = "[((None, Some ''MyTest''), ''B'')]"
               and xs = "[''A'', ''B'', ''C'']" and fs = "''C''",
             THEN conjunct2, THEN conjunct2, THEN conjunct2, THEN conjunct1, THEN mp, OF hf]
    by (simp add: s i n k ListStorage_def apply_side_def MyTest_def)
  from t rt fo show ?thesis by (simp add: current_side_def)
qed

text \<open>
  A \<^verbatim>\<open>ConfigurableAB\<close> whose mapping has the key \<^verbatim>\<open>''\<close>, on a storage that returns
  \<^verbatim>\<open>''\<close> for its identity and name: the stored side is a member of \<open>allowed_sides\<close>,
  yet the call invokes the selector and resolves to \<^verbatim>\<open>'A'\<close>.
\<close>

theorem stored_empty_side_counterexample:
  "storage empty_key_stored = Some ListStorage
   \<and> get_side ListStorage (identity empty_key_stored) (name empty_key_stored)
        [((None, Some ''MyTest''), '''')]
       = (Inr (Some ''''), [((None, Some ''MyTest''), '''')])
   \<and> allowed_sides empty_key_stored = Inr (Some ['''', ''A''])
   \<and> test empty_key_stored () None 0 [((None, Some ''MyTest''), '''')] =
       (Inr ''Side A'', empty_key_stored\<lparr>priv_side := Some ''A''\<rparr>,
        [((None, Some ''MyTest''), ''A''), ((None, Some ''MyTest''), '''')],
        [GetSideCall None (Some ''MyTest''), SelectSideCall,
         SetSideCall None (Some ''MyTest'') ''A'', ApplySideCall ''A''])"
  by (simp add: empty_key_stored_eq test_def resolve_side_def allowed_sides_def apply_side_def
        select_side_def ListStorage_def)

subsection \<open>C4: the configuration check\<close>

text \<open>
  Claim C4. \<^verbatim>\<open>test\<close> raises \<^verbatim>\<open>ABTestError('Test should be named')\<close> when the name is
  \<^verbatim>\<open>None\<close> or empty, and \<^verbatim>\<open>ABTestError('Sides not given ...')\<close> when the name is
  set and \<open>allowed_sides\<close> is \<^verbatim>\<open>None\<close> or empty; these are the configuration errors. In
  both cases the instance and the store are as before the call and the call has made no call
  to the storage, to \<^verbatim>\<open>select_side\<close> or to \<^verbatim>\<open>apply_side\<close>, whatever side is forced.
\<close>

theorem test_configuration_error:
  "(\<not> truthy (name self) \<longrightarrow>
      test self args f rnd st = (Inl (ABTestError TestShouldBeNamed), self, st, []))
   \<and> (truthy (name self) \<and> allowed_sides self = Inr als \<and> \<not> truthy_list als \<longrightarrow>
      test self args f rnd st = (Inl (ABTestError (SidesNotGiven (name self))), self, st, []))"
  by (simp add: test_unnamed test_no_sides)

text \<open>
  \<^verbatim>\<open>ConfigurableAB(sides={'A': 'Side A'}).test(force_side='A')\<close> and
  \<^verbatim>\<open>ConfigurableAB(name='MyTest').test(force_side='A')\<close>.
\<close>

theorem test_configuration_error_witness:
  "\<not> truthy (name unnamed_ab)
   \<and> test unnamed_ab () (Some ''A'') 0 () = (Inl (ABTestError TestShouldBeNamed), unnamed_ab, (), [])
   \<and> truthy (name no_sides_ab) \<and> allowed_sides no_sides_ab = Inr (Some [])
   \<and> test no_sides_ab () (Some ''A'') 0 () =
       (Inl (ABTestError (SidesNotGiven (Some ''MyTest''))), no_sides_ab, (), [])"
proof -
  have u: "\<not> truthy (name unnamed_ab)" by (simp add: unnamed_ab_eq)
  have n: "truthy (name no_sides_ab) \<and> allowed_sides no_sides_ab = Inr (Some [])
             \<and> \<not> truthy_list (Some ([] :: string list))"
    by (simp add: no_sides_ab_eq allowed_sides_def)
  have nm: "name no_sides_ab = Some ''MyTest''" by (simp add: no_sides_ab_eq)
  from test_configuration_error [of unnamed_ab "()" "Some ''A''" 0 "()" "Some []"]
       test_configuration_error [of no_sides_ab "()" "Some ''A''" 0 "()" "Some []"]
       u n nm
  show ?thesis by simp
qed

subsection \<open>C5: a forced side that is not allowed\<close>

text \<open>
  Claim C5, amended. For every instance with a non-empty name and non-empty
  \<open>allowed_sides\<close> and every \<^emph>\<open>non-empty\<close> forced side that is not a member of
  \<open>allowed_sides\<close>, \<^verbatim>\<open>test(force_side=forced)\<close> raises
  \<^verbatim>\<open>ABTestError('Unknown side ...')\<close>, the validation error, and leaves \<open>current_side\<close>,
  the whole instance and the store as they were, without any call to the storage or to
  \<^verbatim>\<open>select_side\<close>. The empty string is excluded: as a forced side it counts as no forced
  side.
\<close>

theorem forced_side_not_allowed:
  assumes n: "truthy (name self)"
    and a: "allowed_sides self = Inr (Some xs)"
    and xne: "xs \<noteq> []"
    and ne: "forced \<noteq> []"
    and m: "forced \<notin> set xs"
  shows "test self args (Some forced) rnd st =
           (Inl (ABTestError (UnknownSide (Some forced) (name self))), self, st, [])
         \<and> current_side (inst_after (test self args (Some forced) rnd st)) = current_side self"
proof -
  have r: "resolve_side self args (Some forced) rnd st = (Inr (Some forced), st, [])"
    using ne by (simp add: resolve_side_forced)
  show ?thesis
    using test_configured [OF n a xne r] m by simp
qed

text \<open>\<^verbatim>\<open>myab.test(force_side='Z')\<close>\<close>

theorem forced_side_not_allowed_witness:
  "truthy (name myab) \<and> allowed_sides myab = Inr (Some [''A'', ''B'']) \<and> ''Z'' \<notin> set [''A'', ''B'']
   \<and> test myab () (Some ''Z'') 0 () =
       (Inl (ABTestError (UnknownSide (Some ''Z'') (Some ''MyTest''))), myab, (), [])"
proof -
  have n: "truthy (name myab)" by (simp add: myab_eq)
  have a: "allowed_sides myab = Inr (Some [''A'', ''B''])"
    by (simp add: myab_eq allowed_sides_def)
  have xne: "[''A'', ''B''] \<noteq> []" by simp
  have ne: "''Z'' \<noteq> []" by simp
  have m: "''Z'' \<notin> set [''A'', ''B'']" by simp
  have nm: "name myab = Some ''MyTest''" by (simp add: myab_eq)
  from forced_side_not_allowed [OF n a xne ne m, of "()" 0 "()"] n a m nm
  show ?thesis by simp
qed

text \<open>
  \<^verbatim>\<open>myab.test(force_side='')\<close>: the forced side is not a member of \<open>allowed_sides\<close>,
  yet the call returns \<^verbatim>\<open>'Side A'\<close> (the selector drawing \<^verbatim>\<open>'A'\<close>) and changes
  \<open>current_side\<close>.
\<close>

theorem forced_empty_side_not_rejected_counterexample:
  "truthy (name myab) \<and> allowed_sides myab = Inr (Some [''A'', ''B''])
   \<and> '''' \<notin> set [''A'', ''B'']
   \<and> current_side myab = None
   \<and> test myab () (Some '''') 0 () =
       (Inr ''Side A'', myab\<lparr>priv_side := Some ''A''\<rparr>, (), [SelectSideCall, ApplySideCall ''A''])"
  by (simp add: myab_eq test_def resolve_side_def allowed_sides_def apply_side_def
        select_side_def choice_def current_side_def)
subsection \<open>C6: \<open>current_side\<close>\<close>

text \<open>
  Claim C6, amended. \<open>current_side\<close> is a read of \<^verbatim>\<open>self._side\<close>: it changes nothing and
  cannot fail. It is \<^verbatim>\<open>None\<close> after construction, and after any number of calls of
  \<^verbatim>\<open>test\<close> it is the side of the most recent call that resolved a valid side, that is,
  that reached the assignment \<^verbatim>\<open>self._side = side\<close>, whether that call then returned or
  raised in \<^verbatim>\<open>set_side\<close> or \<^verbatim>\<open>apply_side\<close>; it is unchanged when no call got
  that far. A call that raises before it has a valid side (configuration error, an exception
  of the storage or the selector, validation error) leaves the instance as it was, and a call
  that returns has set \<open>current_side\<close> to its validated side.
\<close>

theorem current_side_last_validated:
  "current_side (inst_after (BaseAB_init self0 ident stor st0)) = None
   \<and> current_side (fst (run_tests self st cs)) =
       (if validated_sides self st cs = [] then current_side self
        else Some (last (validated_sides self st cs)))
   \<and> current_side (inst_after (test self args f rnd st)) =
       (case validated_side self args f rnd st of None \<Rightarrow> current_side self | Some s \<Rightarrow> Some s)
   \<and> (validated_side self args f rnd st = None \<longrightarrow>
        inst_after (test self args f rnd st) = self
        \<and> (\<exists>e. outcome (test self args f rnd st) = Inl e))
   \<and> (outcome (test self args f rnd st) = Inr v \<longrightarrow>
        validated_side self args f rnd st \<noteq> None
        \<and> current_side (inst_after (test self args f rnd st)) = validated_side self args f rnd st)"
proof -
  have p1: "current_side (inst_after (BaseAB_init self0 ident stor st0)) = None"
    by (simp add: BaseAB_init_def Let_def current_side_def split: option.splits sum.splits prod.splits)
  have p4: "validated_side self args f rnd st = None \<longrightarrow>
        inst_after (test self args f rnd st) = self
        \<and> (\<exists>e. outcome (test self args f rnd st) = Inl e)"
    using test_not_validated [of self args f rnd st] by blast
  have p5: "outcome (test self args f rnd st) = Inr v \<longrightarrow>
        validated_side self args f rnd st \<noteq> None
        \<and> current_side (inst_after (test self args f rnd st)) = validated_side self args f rnd st"
  proof
    assume ok: "outcome (test self args f rnd st) = Inr v"
    from test_success [OF ok] obtain s where s: "validated_side self args f rnd st = Some s"
      by blast
    then show "validated_side self args f rnd st \<noteq> None
        \<and> current_side (inst_after (test self args f rnd st)) = validated_side self args f rnd st"
      by (simp add: test_current_side)
  qed
  show ?thesis
    by (rule conjI [OF p1 conjI [OF run_tests_current_side conjI [OF test_current_side
          conjI [OF p4 p5]]]])
qed

text \<open>
  On a fresh \<^verbatim>\<open>HalfTest\<close> instance: \<^verbatim>\<open>test(force_side='Z')\<close> raises at validation and
  leaves \<open>current_side\<close> \<^verbatim>\<open>None\<close>; \<^verbatim>\<open>test(force_side='A')\<close> returns;
  \<^verbatim>\<open>test(force_side='B')\<close> raises in \<^verbatim>\<open>apply_side\<close>; \<^verbatim>\<open>test(force_side='Z')\<close>
  raises at validation. Afterwards \<open>current_side\<close> is \<^verbatim>\<open>'B'\<close>.
\<close>

theorem current_side_last_validated_witness:
  "validated_side halftest () (Some ''Z'') 0 () = None
   \<and> inst_after (test halftest () (Some ''Z'') 0 ()) = halftest
   \<and> outcome (test halftest () (Some ''A'') 0 ()) = Inr ''Side A''
   \<and> current_side (inst_after (test halftest () (Some ''A'') 0 ())) = Some ''A''
   \<and> validated_sides halftest ()
        [((), Some ''Z'', 0), ((), Some ''A'', 0), ((), Some ''B'', 0), ((), Some ''Z'', 0)]
       = [''A'', ''B'']
   \<and> current_side (fst (run_tests halftest ()
        [((), Some ''Z'', 0), ((), Some ''A'', 0), ((), Some ''B'', 0), ((), Some ''Z'', 0)]))
       = Some ''B''"
proof -
  have a: "\<And>x. allowed_sides (halftest\<lparr>priv_side := x\<rparr>) = Inr (Some [''A'', ''B''])"
    by (simp add: allowed_sides_HalfTest halftest_eq)
  have a0: "allowed_sides halftest = Inr (Some [''A'', ''B''])"
    by (simp add: allowed_sides_HalfTest halftest_eq)
  have nm: "name halftest = Some ''HalfTest''" and sg: "storage halftest = None"
    and kd: "kind halftest = SimpleKind HalfTest"
    by (simp_all add: halftest_eq)
  have tZ: "\<And>x. test (halftest\<lparr>priv_side := x\<rparr>) () (Some ''Z'') 0 () =
      (Inl (ABTestError (UnknownSide (Some ''Z'') (Some ''HalfTest''))),
       halftest\<lparr>priv_side := x\<rparr>, (), [])"
    by (simp add: test_def resolve_side_def a a0 nm sg)
  have tA: "\<And>x. test (halftest\<lparr>priv_side := x\<rparr>) () (Some ''A'') 0 () =
      (Inr ''Side A'', halftest\<lparr>priv_side := Some ''A''\<rparr>, (), [ApplySideCall ''A''])"
    by (simp add: test_def resolve_side_def a a0 nm sg kd apply_side_def HalfTest_def)
  have tB: "\<And>x. test (halftest\<lparr>priv_side := x\<rparr>) () (Some ''B'') 0 () =
      (Inl (ABTestError (SideNotImplemented ''B'' (Some ''HalfTest''))),
       halftest\<lparr>priv_side := Some ''B''\<rparr>, (), [ApplySideCall ''B''])"
    by (simp add: test_def resolve_side_def a a0 nm sg kd apply_side_def HalfTest_def)
  have h0: "halftest\<lparr>priv_side := None\<rparr> = halftest"
    by (simp add: halftest_eq)
  have vZ: "\<And>x. validated_side (halftest\<lparr>priv_side := x\<rparr>) () (Some ''Z'') 0 () = None"
    by (simp add: validated_side_def resolve_side_def a a0 nm sg)
  have vA: "\<And>x. validated_side (halftest\<lparr>priv_side := x\<rparr>) () (Some ''A'') 0 () = Some ''A''"
    by (simp add: validated_side_def resolve_side_def a a0 nm sg)
  have vB: "\<And>x. validated_side (halftest\<lparr>priv_side := x\<rparr>) () (Some ''B'') 0 () = Some ''B''"
    by (simp add: validated_side_def resolve_side_def a a0 nm sg)
  have vs: "validated_sides halftest ()
        [((), Some ''Z'', 0), ((), Some ''A'', 0), ((), Some ''B'', 0), ((), Some ''Z'', 0)]
       = [''A'', ''B'']"
    using tZ [of None] tA [of None] tB [of "Some ''A''"] tZ [of "Some ''B''"]
      vZ [of None] vA [of None] vB [of "Some ''A''"] vZ [of "Some ''B''"]
    by (simp add: h0)
  have c0: "current_side halftest = None"
    by (simp add: halftest_eq current_side_def)
  note run = current_side_last_validated
    [of "new_object (Some ''HalfTest'') (SimpleKind HalfTest)" None None "()" halftest "()"
        "[((), Some ''Z'', 0), ((), Some ''A'', 0), ((), Some ''B'', 0), ((), Some ''Z'', 0)]"
        "()" "Some ''Z''" 0 "''Side A''"]
  note one = current_side_last_validated
    [of "new_object (Some ''HalfTest'') (SimpleKind HalfTest)" None None "()" halftest "()"
        "[]" "()" "Some ''A''" 0 "''Side A''"]
  have r: "current_side (fst (run_tests halftest ()
        [((), Some ''Z'', 0), ((), Some ''A'', 0), ((), Some ''B'', 0), ((), Some ''Z'', 0)]))
       = Some ''B''"
    unfolding run [THEN conjunct2, THEN conjunct1] vs by simp
  have z: "inst_after (test halftest () (Some ''Z'') 0 ()) = halftest"
    using run [THEN conjunct2, THEN conjunct2, THEN conjunct2, THEN conjunct1] vZ [of None]
    by (simp add: h0)
  have okA: "outcome (test halftest () (Some ''A'') 0 ()) = Inr ''Side A''"
    using tA [of None] by (simp add: h0)
  have cA: "current_side (inst_after (test halftest () (Some ''A'') 0 ())) = Some ''A''"
    using one [THEN conjunct2, THEN conjunct2, THEN conjunct2, THEN conjunct2] okA vA [of None]
    by (simp add: h0)
  show ?thesis
    using vZ [of None] z okA cA vs r by (simp add: h0)
qed

text \<open>
  \<^verbatim>\<open>halftest.test(force_side='B')\<close> raises \<^verbatim>\<open>ABTestError('Side "B" is not
  implemented ...')\<close> from \<^verbatim>\<open>apply_side\<close>, and \<open>current_side\<close>, \<^verbatim>\<open>None\<close> before the
  call, is \<^verbatim>\<open>'B'\<close> after it.
\<close>

theorem current_side_after_failed_test_counterexample:
  "current_side halftest = None
   \<and> outcome (test halftest () (Some ''B'') 0 ()) =
       Inl (ABTestError (SideNotImplemented ''B'' (Some ''HalfTest'')))
   \<and> current_side (inst_after (test halftest () (Some ''B'') 0 ())) = Some ''B''"
  by (simp add: halftest_eq test_def resolve_side_def allowed_sides_HalfTest apply_side_def
        HalfTest_def current_side_def)

subsection \<open>C7: the allowed sides of \<^verbatim>\<open>SimpleAB\<close>\<close>

text \<open>
  Claim C7, amended. For every \<^verbatim>\<open>SimpleAB\<close> instance, \<open>allowed_sides\<close> is the sorted list,
  without repetition, of exactly the one-character names in the range \<^verbatim>\<open>'A'..'Z'\<close> among the
  instance's attributes, \<^emph>\<open>whether or not the attribute is callable\<close>. Callability is checked
  by \<^verbatim>\<open>apply_side\<close> only: for an allowed side bound to a method it returns what the method
  returns, and for an allowed side bound to anything else it raises
  \<^verbatim>\<open>ABTestError('Side ... is not implemented ...')\<close>.
\<close>

theorem simple_allowed_sides:
  assumes k: "kind self = SimpleKind attrs"
  shows "\<exists>xs. allowed_sides self = Inr (Some xs) \<and> sorted xs \<and> distinct xs
           \<and> set xs = {x \<in> fst ` set attrs. \<exists>c. x = [c] \<and> CHR ''A'' \<le> c \<and> c \<le> CHR ''Z''}
           \<and> (\<forall>x \<in> set xs. \<forall>m. map_of attrs x = Some (Method m) \<longrightarrow> apply_side self x args = m args)
           \<and> (\<forall>x \<in> set xs. map_of attrs x = Some Plain \<longrightarrow>
                 apply_side self x args = Inl (ABTestError (SideNotImplemented x (name self))))"
proof -
  define P where "P = (\<lambda>x::string. length x = 1 \<and> ''A'' \<le> x \<and> x \<le> ''Z'')"
  have P: "P x \<longleftrightarrow> (\<exists>c. x = [c] \<and> CHR ''A'' \<le> c \<and> c \<le> CHR ''Z'')" for x
    unfolding P_def by (cases x) (auto simp: length_Suc_conv)
  have a: "allowed_sides self = Inr (Some (filter P (dir_names attrs)))"
    using k by (simp add: allowed_sides_def P_def)
  have s: "sorted (filter P (dir_names attrs))"
    by (simp add: dir_names_def sorted_wrt_filter)
  have d: "distinct (filter P (dir_names attrs))"
    by (simp add: dir_names_def)
  have e: "set (filter P (dir_names attrs)) =
             {x \<in> fst ` set attrs. \<exists>c. x = [c] \<and> CHR ''A'' \<le> c \<and> c \<le> CHR ''Z''}"
    by (auto simp: dir_names_def P)
  have m: "\<forall>x \<in> set (filter P (dir_names attrs)). \<forall>m. map_of attrs x = Some (Method m)
             \<longrightarrow> apply_side self x args = m args"
    using k by (simp add: apply_side_def)
  have p: "\<forall>x \<in> set (filter P (dir_names attrs)). map_of attrs x = Some Plain
             \<longrightarrow> apply_side self x args = Inl (ABTestError (SideNotImplemented x (name self)))"
    using k by (simp add: apply_side_def)
  from a s d e m p show ?thesis by blast
qed

text \<open>The allowed sides of \<^verbatim>\<open>MyTest\<close> are \<^verbatim>\<open>['A', 'B', 'C']\<close>.\<close>

theorem simple_allowed_sides_witness:
  "kind mytest = SimpleKind MyTest
   \<and> allowed_sides mytest = Inr (Some [''A'', ''B'', ''C''])
   \<and> set [''A'', ''B'', ''C''] =
       {x \<in> fst ` set MyTest. \<exists>c. x = [c] \<and> CHR ''A'' \<le> c \<and> c \<le> CHR ''Z''}"
proof -
  have k: "kind mytest = SimpleKind MyTest" by (simp add: mytest_eq)
  have a: "allowed_sides mytest = Inr (Some [''A'', ''B'', ''C''])"
    by (rule allowed_sides_MyTest [OF k])
  from simple_allowed_sides [OF k, of "()"] a k show ?thesis by auto
qed

text \<open>
  \<^verbatim>\<open>HalfTest\<close> binds \<^verbatim>\<open>B\<close> to a string: \<^verbatim>\<open>'B'\<close> is an allowed side although it is
  not callable.
\<close>

theorem non_callable_allowed_counterexample:
  "kind halftest = SimpleKind HalfTest
   \<and> map_of HalfTest ''B'' = Some Plain
   \<and> allowed_sides halftest = Inr (Some [''A'', ''B''])
   \<and> ''B'' \<in> set [''A'', ''B'']
   \<and> apply_side halftest ''B'' () = Inl (ABTestError (SideNotImplemented ''B'' (Some ''HalfTest'')))"
  by (simp add: halftest_eq allowed_sides_HalfTest apply_side_def HalfTest_def)
subsection \<open>C8: constructing a \<^verbatim>\<open>ConfigurableAB\<close> with a storage\<close>

text \<open>
  Claim C8 says that \<^verbatim>\<open>ConfigurableAB(storage=s, name=n, sides=d)\<close> succeeds and calls
  \<^verbatim>\<open>s.create(n, allowed sides)\<close>. The code does not: \<^verbatim>\<open>ConfigurableAB.__init__\<close>
  calls \<^verbatim>\<open>BaseAB.__init__\<close> before it assigns \<^verbatim>\<open>self.name\<close> and
  \<^verbatim>\<open>self.sides\<close>, and \<^verbatim>\<open>BaseAB.__init__\<close> evaluates \<^verbatim>\<open>self.allowed_sides\<close>,
  which reads the attribute \<^verbatim>\<open>sides\<close> that does not exist yet. For every identity,
  storage, name, mapping and selector the construction raises \<^verbatim>\<open>AttributeError\<close> and
  \<^verbatim>\<open>create\<close> is never called.
\<close>

theorem ConfigurableAB_with_storage_raises:
  "outcome (ConfigurableAB ident (Some ops) nm sides sel st) = Inl AttributeError
   \<and> store_after (ConfigurableAB ident (Some ops) nm sides sel st) = st
   \<and> calls (ConfigurableAB ident (Some ops) nm sides sel st) = []"
  by (simp add: ConfigurableAB_def ConfigurableAB_init_def BaseAB_init_def new_object_def
        allowed_sides_def)

subsection \<open>C9: \<^verbatim>\<open>record\<close>\<close>

text \<open>
  Claim C9, amended. With a storage attached, \<^verbatim>\<open>record(side)\<close> makes exactly one call,
  \<^verbatim>\<open>storage.record(identity, name, side)\<close>, with the side \<^emph>\<open>as given\<close>: \<^verbatim>\<open>None\<close>
  when the argument is omitted, never the current side, on which the call does not depend.
  It returns or raises what the storage does and leaves the instance as it was. With no
  storage attached it is a no-op: it returns, makes no call and changes neither the instance
  nor the store.
\<close>

theorem record_forwards_given_side:
  "(storage self = None \<longrightarrow> record_ab self side st = (Inr (), self, st, []))
   \<and> (storage self = Some ops \<longrightarrow>
        record_ab self side st =
          (fst (record_event ops (identity self) (name self) side st), self,
           snd (record_event ops (identity self) (name self) side st),
           [RecordCall (identity self) (name self) side]))
   \<and> outcome (record_ab (self\<lparr>priv_side := cur\<rparr>) side st) = outcome (record_ab self side st)
   \<and> store_after (record_ab (self\<lparr>priv_side := cur\<rparr>) side st)
       = store_after (record_ab self side st)
   \<and> calls (record_ab (self\<lparr>priv_side := cur\<rparr>) side st) = calls (record_ab self side st)"
  by (cases "storage self") (simp_all add: record_ab_def split: prod.splits)

text \<open>
  \<^verbatim>\<open>mytest.record('A')\<close> without a storage, and \<^verbatim>\<open>record('A')\<close> on the instance with
  a \<^verbatim>\<open>DummyStorage\<close>.
\<close>

theorem record_forwards_given_side_witness:
  "storage mytest = None
   \<and> record_ab mytest (Some ''A'') () = (Inr (), mytest, (), [])
   \<and> storage mytest_dummy = Some DummyStorage
   \<and> record_ab mytest_dummy (Some ''A'') () =
       (Inr (), mytest_dummy, (), [RecordCall None (Some ''MyTest'') (Some ''A'')])"
proof -
  have s0: "storage mytest = None" by (simp add: mytest_eq)
  have s1: "storage mytest_dummy = Some DummyStorage" by (simp add: mytest_dummy_eq)
  have i: "identity mytest_dummy = None" and n: "name mytest_dummy = Some ''MyTest''"
    by (simp_all add: mytest_dummy_eq)
  from record_forwards_given_side [of mytest "Some ''A''" "()" DummyStorage None]
       record_forwards_given_side [of mytest_dummy "Some ''A''" "()" DummyStorage None]
       s0 s1 i n
  show ?thesis by (simp add: DummyStorage_def)
qed

text \<open>
  After \<^verbatim>\<open>test(force_side='A')\<close> on the instance with a \<^verbatim>\<open>DummyStorage\<close> the current
  side is \<^verbatim>\<open>'A'\<close>, and \<^verbatim>\<open>record()\<close> passes \<^verbatim>\<open>None\<close> to the storage, not
  \<^verbatim>\<open>'A'\<close>.
\<close>

theorem record_omitted_side_counterexample:
  "current_side (inst_after (test mytest_dummy () (Some ''A'') 0 ())) = Some ''A''
   \<and> calls (record_ab (inst_after (test mytest_dummy () (Some ''A'') 0 ())) None ())
       = [RecordCall None (Some ''MyTest'') None]
   \<and> calls (record_ab (inst_after (test mytest_dummy () (Some ''A'') 0 ())) None ())
       \<noteq> [RecordCall None (Some ''MyTest'') (Some ''A'')]"
  by (simp add: mytest_dummy_eq test_def resolve_side_def allowed_sides_MyTest apply_side_def
        MyTest_def DummyStorage_def record_ab_def current_side_def)

subsection \<open>C10: a falsy side is no side\<close>

text \<open>
  Claim C10. \<^verbatim>\<open>test(force_side='')\<close> is \<^verbatim>\<open>test(force_side=None)\<close>, the call without
  a forced side: the same outcome, instance, store and calls, for every instance, also one
  that has the empty string among its allowed sides. With a falsy forced side, \<^verbatim>\<open>test\<close>
  on an instance with a non-empty name and non-empty allowed sides takes the side the storage
  returns, if a storage is attached and that side is truthy: it validates that side, stores
  it and returns its value, without calling \<^verbatim>\<open>select_side\<close>. If no storage is attached,
  or the storage returns \<^verbatim>\<open>None\<close> or the empty string, it calls \<^verbatim>\<open>select_side\<close> and
  validates, stores and applies what that returns. The same is stated for the lines 123 to
  130 alone.
\<close>

theorem falsy_side_is_absent:
  "test self args (Some []) rnd st = test self args None rnd st
   \<and> (\<not> truthy f \<and> storage self = None \<longrightarrow>
        resolve_side self args f rnd st = (select_side self args rnd, st, [SelectSideCall]))
   \<and> (\<not> truthy f \<and> storage self = Some ops
        \<and> get_side ops (identity self) (name self) st = (Inr r, st1) \<and> truthy r \<longrightarrow>
        resolve_side self args f rnd st = (Inr r, st1, [GetSideCall (identity self) (name self)]))
   \<and> (\<not> truthy f \<and> storage self = Some ops
        \<and> get_side ops (identity self) (name self) st = (Inr r, st1) \<and> \<not> truthy r \<longrightarrow>
        resolve_side self args f rnd st =
          (select_side self args rnd, st1,
           [GetSideCall (identity self) (name self), SelectSideCall]))
   \<and> (truthy (name self) \<and> allowed_sides self = Inr (Some xs) \<and> \<not> truthy f
        \<and> storage self = Some ops
        \<and> get_side ops (identity self) (name self) st = (Inr (Some S), st1)
        \<and> S \<noteq> [] \<and> S \<in> set xs \<longrightarrow>
      test self args f rnd st =
        (case set_side ops (identity self) (name self) S st1 of
           (Inl e, st2) \<Rightarrow>
             (Inl e, self\<lparr>priv_side := Some S\<rparr>, st2,
              [GetSideCall (identity self) (name self), SetSideCall (identity self) (name self) S])
         | (Inr u, st2) \<Rightarrow>
             (apply_side (self\<lparr>priv_side := Some S\<rparr>) S args, self\<lparr>priv_side := Some S\<rparr>, st2,
              [GetSideCall (identity self) (name self), SetSideCall (identity self) (name self) S,
               ApplySideCall S])))
   \<and> (truthy (name self) \<and> allowed_sides self = Inr (Some xs) \<and> xs \<noteq> [] \<and> \<not> truthy f
        \<and> storage self = Some ops
        \<and> get_side ops (identity self) (name self) st = (Inr (Some S), st1)
        \<and> S \<noteq> [] \<and> S \<notin> set xs \<longrightarrow>
      test self args f rnd st =
        (Inl (ABTestError (UnknownSide (Some S) (name self))), self, st1,
         [GetSideCall (identity self) (name self)]))
   \<and> (truthy (name self) \<and> allowed_sides self = Inr (Some xs) \<and> xs \<noteq> [] \<and> \<not> truthy f
        \<and> storage self = None \<longrightarrow>
      test self args f rnd st =
        (case select_side self args rnd of
           Inl e \<Rightarrow> (Inl e, self, st, [SelectSideCall])
         | Inr None \<Rightarrow>
             (Inl (ABTestError (UnknownSide None (name self))), self, st, [SelectSideCall])
         | Inr (Some s) \<Rightarrow>
             if s = [] \<or> s \<notin> set xs
             then (Inl (ABTestError (UnknownSide (Some s) (name self))), self, st,
                   [SelectSideCall])
             else (apply_side (self\<lparr>priv_side := Some s\<rparr>) s args, self\<lparr>priv_side := Some s\<rparr>,
                   st, [SelectSideCall, ApplySideCall s])))
   \<and> (truthy (name self) \<and> allowed_sides self = Inr (Some xs) \<and> xs \<noteq> [] \<and> \<not> truthy f
        \<and> storage self = Some ops
        \<and> get_side ops (identity self) (name self) st = (Inr r, st1) \<and> \<not> truthy r \<longrightarrow>
      test self args f rnd st =
        (case select_side self args rnd of
           Inl e \<Rightarrow> (Inl e, self, st1, [GetSideCall (identity self) (name self), SelectSideCall])
         | Inr None \<Rightarrow>
             (Inl (ABTestError (UnknownSide None (name self))), self, st1,
              [GetSideCall (identity self) (name self), SelectSideCall])
         | Inr (Some s) \<Rightarrow>
             if s = [] \<or> s \<notin> set xs
             then (Inl (ABTestError (UnknownSide (Some s) (name self))), self, st1,
                   [GetSideCall (identity self) (name self), SelectSideCall])
             else
               (case set_side ops (identity self) (name self) s st1 of
                  (Inl e, st2) \<Rightarrow>
                    (Inl e, self\<lparr>priv_side := Some s\<rparr>, st2,
                     [GetSideCall (identity self) (name self), SelectSideCall,
                      SetSideCall (identity self) (name self) s])
                | (Inr u, st2) \<Rightarrow>
                    (apply_side (self\<lparr>priv_side := Some s\<rparr>) s args,
                     self\<lparr>priv_side := Some s\<rparr>, st2,
                     [GetSideCall (identity self) (name self), SelectSideCall,
                      SetSideCall (identity self) (name self) s, ApplySideCall s]))))"
proof -
  have p1: "test self args (Some []) rnd st = test self args None rnd st"
    unfolding test_def resolve_side_empty_force ..
  have p2: "\<not> truthy f \<and> storage self = None \<longrightarrow>
        resolve_side self args f rnd st = (select_side self args rnd, st, [SelectSideCall])"
    by (simp add: resolve_side_no_storage)
  have p3: "\<not> truthy f \<and> storage self = Some ops
        \<and> get_side ops (identity self) (name self) st = (Inr r, st1) \<and> truthy r \<longrightarrow>
        resolve_side self args f rnd st = (Inr r, st1, [GetSideCall (identity self) (name self)])"
    by (simp add: resolve_side_storage)
  have p4: "\<not> truthy f \<and> storage self = Some ops
        \<and> get_side ops (identity self) (name self) st = (Inr r, st1) \<and> \<not> truthy r \<longrightarrow>
        resolve_side self args f rnd st =
          (select_side self args rnd, st1,
           [GetSideCall (identity self) (name self), SelectSideCall])"
    by (simp add: resolve_side_storage)
  have q1: "truthy (name self) \<and> allowed_sides self = Inr (Some xs) \<and> \<not> truthy f
        \<and> storage self = Some ops
        \<and> get_side ops (identity self) (name self) st = (Inr (Some S), st1)
        \<and> S \<noteq> [] \<and> S \<in> set xs \<longrightarrow>
      test self args f rnd st =
        (case set_side ops (identity self) (name self) S st1 of
           (Inl e, st2) \<Rightarrow>
             (Inl e, self\<lparr>priv_side := Some S\<rparr>, st2,
              [GetSideCall (identity self) (name self), SetSideCall (identity self) (name self) S])
         | (Inr u, st2) \<Rightarrow>
             (apply_side (self\<lparr>priv_side := Some S\<rparr>) S args, self\<lparr>priv_side := Some S\<rparr>, st2,
              [GetSideCall (identity self) (name self), SetSideCall (identity self) (name self) S,
               ApplySideCall S]))"
    by (intro impI, elim conjE, rule test_stored; assumption)
  have q2: "truthy (name self) \<and> allowed_sides self = Inr (Some xs) \<and> xs \<noteq> [] \<and> \<not> truthy f
        \<and> storage self = Some ops
        \<and> get_side ops (identity self) (name self) st = (Inr (Some S), st1)
        \<and> S \<noteq> [] \<and> S \<notin> set xs \<longrightarrow>
      test self args f rnd st =
        (Inl (ABTestError (UnknownSide (Some S) (name self))), self, st1,
         [GetSideCall (identity self) (name self)])"
    by (intro impI, elim conjE, rule test_stored_invalid; assumption)
  have q3: "truthy (name self) \<and> allowed_sides self = Inr (Some xs) \<and> xs \<noteq> [] \<and> \<not> truthy f
        \<and> storage self = None \<longrightarrow>
      test self args f rnd st =
        (case select_side self args rnd of
           Inl e \<Rightarrow> (Inl e, self, st, [SelectSideCall])
         | Inr None \<Rightarrow>
             (Inl (ABTestError (UnknownSide None (name self))), self, st, [SelectSideCall])
         | Inr (Some s) \<Rightarrow>
             if s = [] \<or> s \<notin> set xs
             then (Inl (ABTestError (UnknownSide (Some s) (name self))), self, st,
                   [SelectSideCall])
             else (apply_side (self\<lparr>priv_side := Some s\<rparr>) s args, self\<lparr>priv_side := Some s\<rparr>,
                   st, [SelectSideCall, ApplySideCall s]))"
    by (intro impI, elim conjE, rule test_selected_no_storage; assumption)
  have q4: "truthy (name self) \<and> allowed_sides self = Inr (Some xs) \<and> xs \<noteq> [] \<and> \<not> truthy f
        \<and> storage self = Some ops
        \<and> get_side ops (identity self) (name self) st = (Inr r, st1) \<and> \<not> truthy r \<longrightarrow>
      test self args f rnd st =
        (case select_side self args rnd of
           Inl e \<Rightarrow> (Inl e, self, st1, [GetSideCall (identity self) (name self), SelectSideCall])
         | Inr None \<Rightarrow>
             (Inl (ABTestError (UnknownSide None (name self))), self, st1,
              [GetSideCall (identity self) (name self), SelectSideCall])
         | Inr (Some s) \<Rightarrow>
             if s = [] \<or> s \<notin> set xs
             then (Inl (ABTestError (UnknownSide (Some s) (name self))), self, st1,
                   [GetSideCall (identity self) (name self), SelectSideCall])
             else
               (case set_side ops (identity self) (name self) s st1 of
                  (Inl e, st2) \<Rightarrow>
                    (Inl e, self\<lparr>priv_side := Some s\<rparr>, st2,
                     [GetSideCall (identity self) (name self), SelectSideCall,
                      SetSideCall (identity self) (name self) s])
                | (Inr u, st2) \<Rightarrow>
                    (apply_side (self\<lparr>priv_side := Some s\<rparr>) s args,
                     self\<lparr>priv_side := Some s\<rparr>, st2,
                     [GetSideCall (identity self) (name self), SelectSideCall,
                      SetSideCall (identity self) (name self) s, ApplySideCall s])))"
    by (intro impI, elim conjE, rule test_selected_storage; assumption)
  show ?thesis
    by (rule conjI [OF p1 conjI [OF p2 conjI [OF p3 conjI [OF p4 conjI [OF q1 conjI [OF q2
          conjI [OF q3 q4]]]]]]])
qed

text \<open>
  \<^verbatim>\<open>MyTest\<close> on a storage that holds \<^verbatim>\<open>'B'\<close>: \<^verbatim>\<open>test(force_side='')\<close> returns
  \<^verbatim>\<open>'Side B'\<close>, although the random index 0 would select \<^verbatim>\<open>'A'\<close>. The instance whose
  mapping has the key \<^verbatim>\<open>''\<close>, on a storage that returns \<^verbatim>\<open>''\<close>: with
  \<^verbatim>\<open>force_side=''\<close> the call asks the storage, then the selector, and returns the value
  of \<^verbatim>\<open>'A'\<close>.
\<close>

theorem falsy_side_is_absent_witness:
  "\<not> truthy (Some '''') \<and> storage empty_key_stored = Some ListStorage
   \<and> allowed_sides empty_key_stored = Inr (Some ['''', ''A''])
   \<and> resolve_side empty_key_stored () (Some '''') 0 [((None, Some ''MyTest''), '''')] =
       (Inr (Some ''A''), [((None, Some ''MyTest''), '''')],
        [GetSideCall None (Some ''MyTest''), SelectSideCall])
   \<and> test empty_key_stored () (Some '''') 0 [((None, Some ''MyTest''), '''')] =
       test empty_key_stored () None 0 [((None, Some ''MyTest''), '''')]
   \<and> test empty_key_stored () (Some '''') 0 [((None, Some ''MyTest''), '''')] =
       (Inr ''Side A'', empty_key_stored\<lparr>priv_side := Some ''A''\<rparr>,
        [((None, Some ''MyTest''), ''A''), ((None, Some ''MyTest''), '''')],
        [GetSideCall None (Some ''MyTest''), SelectSideCall,
         SetSideCall None (Some ''MyTest'') ''A'', ApplySideCall ''A''])
   \<and> test mytest_stored () (Some '''') 0 [((None, Some ''MyTest''), ''B'')] =
       (Inr ''Side B'', mytest_stored\<lparr>priv_side := Some ''B''\<rparr>,
        [((None, Some ''MyTest''), ''B''), ((None, Some ''MyTest''), ''B'')],
        [GetSideCall None (Some ''MyTest''), SetSideCall None (Some ''MyTest'') ''B'',
         ApplySideCall ''B''])"
proof -
  have s: "storage empty_key_stored = Some ListStorage"
    by (simp add: empty_key_stored_eq)
  have i: "identity empty_key_stored = None" and n: "name empty_key_stored = Some ''MyTest''"
    by (simp_all add: empty_key_stored_eq)
  have a: "allowed_sides empty_key_stored = Inr (Some ['''', ''A''])"
    by (simp add: empty_key_stored_eq allowed_sides_def)
  have g: "get_side ListStorage (identity empty_key_stored) (name empty_key_stored)
             [((None, Some ''MyTest''), '''')] = (Inr (Some ''''), [((None, Some ''MyTest''), '''')])"
    by (simp add: i n ListStorage_def)
  have sel: "select_side empty_key_stored () 0 = Inr (Some ''A'')"
    by (simp add: empty_key_stored_eq select_side_def)
  have ap: "apply_side (empty_key_stored\<lparr>priv_side := Some ''A''\<rparr>) ''A'' () = Inr ''Side A''"
    by (simp add: empty_key_stored_eq apply_side_def)
  have h: "\<not> truthy (Some '''') \<and> storage empty_key_stored = Some ListStorage
        \<and> get_side ListStorage (identity empty_key_stored) (name empty_key_stored)
             [((None, Some ''MyTest''), '''')] = (Inr (Some ''''), [((None, Some ''MyTest''), '''')])
        \<and> \<not> truthy (Some '''')"
    using s g by simp
  have ht: "truthy (name empty_key_stored)
        \<and> allowed_sides empty_key_stored = Inr (Some ['''', ''A'']) \<and> ['''', ''A''] \<noteq> []
        \<and> \<not> truthy (Some '''') \<and> storage empty_key_stored = Some ListStorage
        \<and> get_side ListStorage (identity empty_key_stored) (name empty_key_stored)
             [((None, Some ''MyTest''), '''')] = (Inr (Some ''''), [((None, Some ''MyTest''), '''')])
        \<and> \<not> truthy (Some '''')"
    using s g a n by simp
  note inst = falsy_side_is_absent
    [where self = empty_key_stored and args = "()" and rnd = 0
       and st = "[((None, Some ''MyTest''), '''')]" and f = "Some ''''" and ops = ListStorage
       and r = "Some ''''" and ?st1.0 = "[((None, Some ''MyTest''), '''')]"
       and xs = "['''', ''A'']"]
  have r: "resolve_side empty_key_stored () (Some '''') 0 [((None, Some ''MyTest''), '''')] =
       (Inr (Some ''A''), [((None, Some ''MyTest''), '''')],
        [GetSideCall None (Some ''MyTest''), SelectSideCall])"
    using inst [THEN conjunct2, THEN conjunct2, THEN conjunct2, THEN conjunct1, THEN mp, OF h]
    by (simp add: sel i n)
  have e: "test empty_key_stored () (Some '''') 0 [((None, Some ''MyTest''), '''')] =
       test empty_key_stored () None 0 [((None, Some ''MyTest''), '''')]"
    by (rule inst [THEN conjunct1])
  have o: "test empty_key_stored () (Some '''') 0 [((None, Some ''MyTest''), '''')] =
       (Inr ''Side A'', empty_key_stored\<lparr>priv_side := Some ''A''\<rparr>,
        [((None, Some ''MyTest''), ''A''), ((None, Some ''MyTest''), '''')],
        [GetSideCall None (Some ''MyTest''), SelectSideCall,
         SetSideCall None (Some ''MyTest'') ''A'', ApplySideCall ''A''])"
    using inst [THEN conjunct2, THEN conjunct2, THEN conjunct2, THEN conjunct2, THEN conjunct2,
                THEN conjunct2, THEN conjunct2, THEN mp, OF ht]
    by (simp add: sel ap i n ListStorage_def)
  have k2: "kind mytest_stored = SimpleKind MyTest" and i2: "identity mytest_stored = None"
    and n2: "name mytest_stored = Some ''MyTest''"
    and s2: "storage mytest_stored = Some ListStorage"
    by (simp_all add: mytest_stored_eq)
  have hs: "truthy (name mytest_stored)
        \<and> allowed_sides mytest_stored = Inr (Some [''A'', ''B'', ''C'']) \<and> \<not> truthy (Some '''')
        \<and> storage mytest_stored = Some ListStorage
        \<and> get_side ListStorage (identity mytest_stored) (name mytest_stored)
             [((None, Some ''MyTest''), ''B'')] = (Inr (Some ''B''), [((None, Some ''MyTest''), ''B'')])
        \<and> ''B'' \<noteq> [] \<and> ''B'' \<in> set [''A'', ''B'', ''C'']"
    using allowed_sides_MyTest [OF k2] by (simp add: i2 n2 s2 ListStorage_def)
  have b: "test mytest_stored () (Some '''') 0 [((None, Some ''MyTest''), ''B'')] =
       (Inr ''Side B'', mytest_stored\<lparr>priv_side := Some ''B''\<rparr>,
        [((None, Some ''MyTest''), ''B''), ((None, Some ''MyTest''), ''B'')],
        [GetSideCall None (Some ''MyTest''), SetSideCall None (Some ''MyTest'') ''B'',
         ApplySideCall ''B''])"
    using falsy_side_is_absent
      [where self = mytest_stored and args = "()" and rnd = 0
         and st = "[((None, Some ''MyTest''), ''B'')]" and f = "Some ''''" and ops = ListStorage
         and S = "''B''" and ?st1.0 = "[((None, Some ''MyTest''), ''B'')]"
         and xs = "[''A'', ''B'', ''C'']",
       THEN conjunct2, THEN conjunct2, THEN conjunct2, THEN conjunct2, THEN conjunct1,
       THEN mp, OF hs]
    by (simp add: i2 n2 k2 ListStorage_def apply_side_def MyTest_def)
  from s a r e o b show ?thesis by simp
qed

end
